theory Spec2Isabelle
  imports Complex_Main
begin

section \<open>Network: import and graph synthesis (network.py)\<close>

text \<open>
  A shallow embedding of the methods \<^verbatim>\<open>create_from_osm\<close>, \<^verbatim>\<open>create_from_gmns\<close> and
  \<^verbatim>\<open>build_graphs\<close> of class \<^verbatim>\<open>Network\<close>. Python exceptions are values of
  \<open>error\<close>; a method that can raise returns \<open>error + 'a\<close>. Python floats are read as
  real numbers (no rounding), integers as \<open>int\<close>.
\<close>

datatype error =
  FileExistsError | ValueError | TypeError | ZeroDivisionError | KeyError | IndexError
  | AttributeError

subsection \<open>create\_from\_osm\<close>

text \<open>
  The \<^verbatim>\<open>modes\<close> argument is a list or tuple of strings, a single string, or anything
  else (lines 165--170).
\<close>

datatype modes_arg = ModesList "string list" | ModesStr string | ModesOther

definition normalise_modes :: "modes_arg \<Rightarrow> error + string list" where
  "normalise_modes modes =
     (case modes of
        ModesList ms \<Rightarrow> Inr ms
      | ModesStr m \<Rightarrow> Inr [m]
      | ModesOther \<Rightarrow> Inl ValueError)"

text \<open>
  What the method reads from outside: the number of links of the model, the
  \<^verbatim>\<open>haversine\<close> distance (module \<^verbatim>\<open>haversine\<close>, taken as a parameter), the
  parameter \<^verbatim>\<open>max_query_area_size\<close> and \<^verbatim>\<open>placegetter\<close>, which answers a place name
  with a bounding box (or \<^verbatim>\<open>None\<close>) and a report.
\<close>

record osm_env =
  count_links :: nat
  haversine :: "real \<Rightarrow> real \<Rightarrow> real \<Rightarrow> real \<Rightarrow> real"
  max_query_area_size :: real
  placegetter :: "string \<Rightarrow> real list option \<times> string list"

text \<open>
  What the method leaves behind: the warnings issued and the arguments handed to
  \<^verbatim>\<open>OSMDownloader\<close> (the polygons and the modes).
\<close>

record osm_state =
  warnings :: "string list"
  downloader :: "(real list list \<times> string list) option"

text \<open>
  \<^verbatim>\<open>west, south, east, north = bbox\<close>: unpacking \<^verbatim>\<open>None\<close> raises TypeError, a
  sequence of another length raises ValueError.
\<close>

fun unpack4 :: "real list option \<Rightarrow> error + (real \<times> real \<times> real \<times> real)" where
  "unpack4 None = Inl TypeError"
| "unpack4 (Some [w, s, e, n]) = Inr (w, s, e, n)"
| "unpack4 (Some _) = Inl ValueError"

text \<open>Lines 189--191: height at the mid-longitude times width at the mid-latitude.\<close>

definition bbox_area ::
  "(real \<Rightarrow> real \<Rightarrow> real \<Rightarrow> real \<Rightarrow> real) \<Rightarrow> real \<Rightarrow> real \<Rightarrow> real \<Rightarrow> real \<Rightarrow> real" where
  "bbox_area hav west south east north =
     (let height = hav ((east + west) / 2) south ((east + west) / 2) north;
          width = hav east ((north + south) / 2) west ((north + south) / 2)
      in height * width)"

text \<open>Lines 200--202, with \<^verbatim>\<open>math.ceil\<close> as the ceiling into the integers.\<close>

definition parts_of :: "real \<Rightarrow> real \<Rightarrow> int" where
  "parts_of area mq = \<lceil>area / mq\<rceil>"

definition horizontal_of :: "int \<Rightarrow> int" where
  "horizontal_of parts = \<lceil>sqrt (real_of_int parts)\<rceil>"

definition vertical_of :: "int \<Rightarrow> int \<Rightarrow> int" where
  "vertical_of parts horizontal = \<lceil>real_of_int parts / real_of_int horizontal\<rceil>"

text \<open>Lines 205--212: the body of the two nested loops, for column \<open>i\<close> and row \<open>j\<close>.\<close>

definition tile_box ::
  "real \<Rightarrow> real \<Rightarrow> real \<Rightarrow> real \<Rightarrow> nat \<Rightarrow> nat \<Rightarrow> real list" where
  "tile_box west south dx dy i j =
     (let xmin = max (- 180) (west + real i * dx);
          xmax = min 180 (west + (real i + 1) * dx);
          ymin = max (- 90) (south + real j * dy);
          ymax = min 90 (south + (real j + 1) * dy)
      in [xmin, ymin, xmax, ymax])"

text \<open>
  Lines 196--212. The division by \<^verbatim>\<open>max_query_area_size\<close> or by \<^verbatim>\<open>horizontal\<close>
  raises ZeroDivisionError at zero, \<^verbatim>\<open>math.sqrt\<close> raises ValueError below zero.
\<close>

definition osm_polygons ::
  "real \<Rightarrow> real \<Rightarrow> real list \<Rightarrow> real \<Rightarrow> real \<Rightarrow> real \<Rightarrow> real \<Rightarrow> error + real list list" where
  "osm_polygons area mq bbox west south east north =
     (if area < mq then Inr [bbox]
      else if mq = 0 then Inl ZeroDivisionError
      else
        let parts = parts_of area mq in
        if parts < 0 then Inl ValueError
        else
          let horizontal = horizontal_of parts in
          if horizontal = 0 then Inl ZeroDivisionError
          else
            let vertical = vertical_of parts horizontal in
            if vertical = 0 then Inl ZeroDivisionError
            else
              let dx = (east - west) / real_of_int horizontal;
                  dy = (north - south) / real_of_int vertical
              in Inr (concat (map (\<lambda>i. map (\<lambda>j. tile_box west south dx dy i j)
                                             [0..<nat vertical])
                                  [0..<nat horizontal])))"

definition out_of_bounds :: "real \<Rightarrow> real \<Rightarrow> real \<Rightarrow> real \<Rightarrow> bool" where
  "out_of_bounds west south east north \<longleftrightarrow>
     min east west < - 180 \<or> max east west > 180 \<or> min north south < - 90 \<or> max north south > 90"

definition place_not_found_msg :: "string \<Rightarrow> string" where
  "place_not_found_msg place_name =
     ''We could not find a reference for place name \"'' @ place_name @ ''\"''"

text \<open>Lines 188--215, shared by both ways of giving the bounding box.\<close>

definition download_tiles ::
  "osm_env \<Rightarrow> string list \<Rightarrow> real list \<Rightarrow> real \<Rightarrow> real \<Rightarrow> real \<Rightarrow> real \<Rightarrow> osm_state
     \<Rightarrow> error + osm_state" where
  "download_tiles env modes bbox west south east north st =
     (let area = bbox_area (haversine env) west south east north in
      case osm_polygons area (max_query_area_size env) bbox west south east north of
        Inl e \<Rightarrow> Inl e
      | Inr polygons \<Rightarrow> Inr (st\<lparr>downloader := Some (polygons, modes)\<rparr>))"

text \<open>
  Lines 157--215. The coordinates default to \<^verbatim>\<open>None\<close>; comparing \<^verbatim>\<open>None\<close> in
  \<^verbatim>\<open>min\<close> raises TypeError. With a place name, line 178 unpacks the bounding box
  before line 179 tests it for \<^verbatim>\<open>None\<close>.
\<close>

definition create_from_osm ::
  "osm_env \<Rightarrow> real option \<Rightarrow> real option \<Rightarrow> real option \<Rightarrow> real option \<Rightarrow> string option
     \<Rightarrow> modes_arg \<Rightarrow> osm_state \<Rightarrow> error + osm_state" where
  "create_from_osm env west south east north place_name modes st =
     (if count_links env > 0 then Inl FileExistsError
      else
        case normalise_modes modes of
          Inl e \<Rightarrow> Inl e
        | Inr ms \<Rightarrow>
            (case place_name of
               None \<Rightarrow>
                 (case (west, south, east, north) of
                    (Some w, Some s, Some e, Some n) \<Rightarrow>
                      if out_of_bounds w s e n then Inl ValueError
                      else download_tiles env ms [w, s, e, n] w s e n st
                  | _ \<Rightarrow> Inl TypeError)
             | Some name \<Rightarrow>
                 (let (bbox, report) = placegetter env name in
                  case unpack4 bbox of
                    Inl e \<Rightarrow> Inl e
                  | Inr (w, s, e, n) \<Rightarrow>
                      (case bbox of
                         None \<Rightarrow>
                           Inr (st\<lparr>warnings := warnings st @ [place_not_found_msg name]\<rparr>)
                       | Some b \<Rightarrow> download_tiles env ms b w s e n st))))"




subsection \<open>create\_from\_gmns: the tables\<close>

text \<open>
  A cell of a pandas table: a number, a missing value, or a string. \<^verbatim>\<open>''\<close> is
  \<open>Str []\<close>.
\<close>

datatype cell = Num real | NaN | Str string

text \<open>
  A row of the GMNS links file. The grouping and the sort of lines 299--310 name the
  columns \<^verbatim>\<open>from_node_id\<close>, \<^verbatim>\<open>to_node_id\<close> and \<^verbatim>\<open>link_id\<close> literally; the model
  takes the configured names of \<^verbatim>\<open>link_id\<close>, \<^verbatim>\<open>a_node\<close> and \<^verbatim>\<open>b_node\<close> to be these
  three. Every other field holds the row's value in the column that the configuration
  names (or, for \<open>link_type_name_v\<close>, \<open>geometry_v\<close>, \<open>bike_facility_v\<close> and
  \<open>ped_facility_v\<close>, in the column of that literal name); whether the column exists
  is decided by \<open>columns\<close> of the table, and the value of an absent column is never
  read.
\<close>

record gmns_link =
  link_id :: int
  from_node_id :: int
  to_node_id :: int
  distance_v :: cell
  direction_v :: cell
  speed_v :: cell
  capacity_v :: cell
  lanes_v :: cell
  name_v :: cell
  link_type_v :: string
  link_type_name_v :: string
  modes_v :: string
  geometry_v :: string
  bike_facility_v :: string
  ped_facility_v :: string

record gmns_node =
  node_id :: int
  x_coord :: real
  y_coord :: real

record 'r dataframe =
  columns :: "string list"
  rows :: "'r list"

text \<open>
  The parameters read from \<^verbatim>\<open>Parameters()\<close>: the configured column names, the lists of
  required fields, the \<^verbatim>\<open>gmns_users\<close> table (each entry a dictionary of one key, with
  its description and its letters) and the link types allowed for each mode.
\<close>

record gmns_params =
  distance_field :: string
  direction_field :: string
  speed_field :: string
  capacity_field :: string
  lanes_field :: string
  name_field :: string
  link_type_field :: string
  modes_field :: string
  geometry_field :: string
  node_id_field :: string
  required_node_fields :: "string list"
  required_link_fields :: "string list"
  gmns_users :: "(string \<times> string \<times> string) list"
  bicycle_link_types :: "string list"
  car_link_types :: "string list"
  transit_link_types :: "string list"
  walk_link_types :: "string list"

text \<open>The rows built for the two insert statements (lines 487--512).\<close>

record aeq_node =
  aeq_node_id :: int
  aeq_is_centroid :: int
  aeq_x_coord :: real
  aeq_y_coord :: real
  aeq_node_notes :: string

record aeq_link =
  aeq_link_id :: int
  aeq_a_node :: int
  aeq_b_node :: int
  aeq_direction :: cell
  aeq_distance :: cell
  aeq_modes :: string
  aeq_link_type :: string
  aeq_name :: cell
  aeq_speed_ab :: cell
  aeq_speed_ba :: cell
  aeq_capacity_ab :: cell
  aeq_capacity_ba :: cell
  aeq_geometry :: string
  aeq_lanes_ab :: cell
  aeq_lanes_ba :: cell
  aeq_notes :: string

text \<open>
  Modelled from the spec: the classes \<^verbatim>\<open>LinkTypes\<close> and \<^verbatim>\<open>Modes\<close> are not among the
  sources. A registry is the list of its entries in the order of their creation: a
  link type is a code and its full name, a mode is a code, its name and its description.
  \<^verbatim>\<open>all_types()\<close> and \<^verbatim>\<open>list_modes()\<close> give the codes; \<^verbatim>\<open>new\<close> followed by
  \<^verbatim>\<open>save\<close> appends an entry.
\<close>

type_synonym link_type_registry = "(char \<times> string) list"
type_synonym mode_registry = "(char \<times> string \<times> string) list"

definition all_types :: "link_type_registry \<Rightarrow> char list" where
  "all_types reg = map fst reg"

definition new_link_type :: "link_type_registry \<Rightarrow> char \<Rightarrow> string \<Rightarrow> link_type_registry" where
  "new_link_type reg code lt_name = reg @ [(code, lt_name)]"

definition list_modes :: "mode_registry \<Rightarrow> char list" where
  "list_modes reg = map fst reg"

definition new_mode :: "mode_registry \<Rightarrow> char \<Rightarrow> string \<Rightarrow> string \<Rightarrow> mode_registry" where
  "new_mode reg code mode_name description = reg @ [(code, mode_name, description)]"

record network =
  link_type_registry :: link_type_registry
  mode_registry :: mode_registry
  nodes_table :: "aeq_node list"
  links_table :: "aeq_link list"

subsection \<open>create\_from\_gmns: required fields (lines 256--268, 294--295)\<close>

definition check_node_fields :: "gmns_params \<Rightarrow> string list \<Rightarrow> error + unit" where
  "check_node_fields p cols =
     (if list_ex (\<lambda>field. field \<notin> set cols) (required_node_fields p) then Inl ValueError
      else Inr ())"

text \<open>A missing \<^verbatim>\<open>directed\<close> column is added; any other missing field is an error.\<close>

fun check_link_fields :: "string list \<Rightarrow> string list \<Rightarrow> error + string list" where
  "check_link_fields [] cols = Inr cols"
| "check_link_fields (field # rest) cols =
     (if field \<notin> set cols then
        (if field = ''directed'' then check_link_fields rest (cols @ [field])
         else Inl ValueError)
      else check_link_fields rest cols)"

definition check_geometry :: "gmns_params \<Rightarrow> string list \<Rightarrow> error + unit" where
  "check_geometry p cols =
     (if geometry_field p \<notin> set cols then Inl ValueError else Inr ())"

definition add_distance :: "gmns_params \<Rightarrow> gmns_link dataframe \<Rightarrow> gmns_link dataframe" where
  "add_distance p df =
     (if distance_field p \<notin> set (columns df)
      then \<lparr>columns = columns df @ [distance_field p],
            rows = map (\<lambda>r. r\<lparr>distance_v := NaN\<rparr>) (rows df)\<rparr>
      else df)"

subsection \<open>create\_from\_gmns: two-way links (lines 299--313)\<close>

definition pair_of :: "gmns_link \<Rightarrow> int \<times> int" where
  "pair_of r = (from_node_id r, to_node_id r)"

text \<open>\<^verbatim>\<open>groupby([...]).count()\<close>: the number of rows of a group.\<close>

definition group_count :: "gmns_link list \<Rightarrow> int \<times> int \<Rightarrow> nat" where
  "group_count rs p = length (filter (\<lambda>r. pair_of r = p) rs)"

text \<open>
  The pairs of the groups of two rows or more. They are only tested for membership,
  so their order is of no account.
\<close>

definition two_way_nodes :: "gmns_link list \<Rightarrow> (int \<times> int) list" where
  "two_way_nodes rs = remdups (filter (\<lambda>p. group_count rs p \<ge> 2) (map pair_of rs))"

text \<open>\<^verbatim>\<open>drop_duplicates(subset=[...], keep='last')\<close>: the last row of each pair stays.\<close>

fun drop_duplicates_last :: "gmns_link list \<Rightarrow> gmns_link list" where
  "drop_duplicates_last [] = []"
| "drop_duplicates_last (r # rs) =
     (if pair_of r \<in> pair_of ` set rs then drop_duplicates_last rs
      else r # drop_duplicates_last rs)"

text \<open>
  \<^verbatim>\<open>sort_values('link_id')\<close> is \<open>sort_key link_id\<close>, which keeps rows of equal
  \<^verbatim>\<open>link_id\<close> in their order; pandas promises no order among them, and the theorems
  below speak of tables whose \<^verbatim>\<open>link_id\<close>s are distinct. The result is the table
  after line 308 and the list \<^verbatim>\<open>two_way_indices\<close>.
\<close>

definition two_way_detection :: "gmns_link list \<Rightarrow> gmns_link list \<times> nat list" where
  "two_way_detection rs =
     (let nodes = two_way_nodes rs in
      if length nodes > 0 then
        let two_way_df = filter (\<lambda>r. pair_of r \<in> set nodes) rs;
            two_way_links = map link_id (drop_duplicates_last (sort_key link_id two_way_df));
            rs' = drop_duplicates_last (sort_key link_id rs);
            two_way_indices = filter (\<lambda>i. link_id (rs' ! i) \<in> set two_way_links) [0..<length rs']
        in (rs', two_way_indices)
      else (rs, []))"

subsection \<open>create\_from\_gmns: direction (lines 317--330)\<close>

text \<open>Lines 317--318: a missing direction column is created, filled with 1.\<close>

definition add_direction :: "gmns_params \<Rightarrow> gmns_link dataframe \<Rightarrow> gmns_link dataframe" where
  "add_direction p df =
     (if direction_field p \<notin> set (columns df)
      then \<lparr>columns = columns df @ [direction_field p],
            rows = map (\<lambda>r. r\<lparr>direction_v := Num 1\<rparr>) (rows df)\<rparr>
      else df)"

text \<open>Lines 322--324: \<^verbatim>\<open>direction[idx] = 0\<close> for every two-way index.\<close>

definition force_two_way :: "nat list \<Rightarrow> cell list \<Rightarrow> cell list" where
  "force_two_way two_way_indices direction =
     fold (\<lambda>idx d. d[idx := Num 0]) two_way_indices direction"

text \<open>
  Lines 328--330: \<^verbatim>\<open>i not in [1, 0, -1]\<close> compares with \<^verbatim>\<open>==\<close>, which holds for a
  number equal to one of the three and for nothing else.
\<close>

definition in_1_0_m1 :: "cell \<Rightarrow> bool" where
  "in_1_0_m1 i \<longleftrightarrow> i = Num 1 \<or> i = Num 0 \<or> i = Num (- 1)"

definition normalise_direction :: "cell list \<Rightarrow> cell list" where
  "normalise_direction direction = map (\<lambda>i. if \<not> in_1_0_m1 i then Num 1 else i) direction"

text \<open>The list \<^verbatim>\<open>direction\<close> after line 324, and after line 330.\<close>

definition direction_324 :: "gmns_link list \<Rightarrow> nat list \<Rightarrow> cell list" where
  "direction_324 rs two_way_indices = force_two_way two_way_indices (map direction_v rs)"

definition direction_330 :: "gmns_link list \<Rightarrow> nat list \<Rightarrow> cell list" where
  "direction_330 rs two_way_indices = normalise_direction (direction_324 rs two_way_indices)"

subsection \<open>create\_from\_gmns: speeds, capacities and lanes (lines 334--367)\<close>

text \<open>
  One round of the loop for one of the three fields: \<open>present\<close> says whether the
  column exists, \<open>v\<close> is the row's value, \<open>(ab, ba)\<close> are the two lists of slots.
\<close>

definition assign_slot ::
  "bool \<Rightarrow> cell list \<Rightarrow> nat \<Rightarrow> cell \<Rightarrow> cell list \<times> cell list \<Rightarrow> cell list \<times> cell list" where
  "assign_slot present direction idx v slots =
     (case slots of (ab, ba) \<Rightarrow>
        if present then
          (if direction ! idx = Num 1 then (ab[idx := v], ba)
           else if direction ! idx = Num (- 1) then (ab, ba[idx := v])
           else (ab[idx := v], ba[idx := v]))
        else (ab, ba))"

text \<open>
  The loop over the rows, for one field. The source fills the three fields in the same
  round; they share nothing but \<^verbatim>\<open>direction\<close>, which the loop only reads.
\<close>

definition split_field ::
  "bool \<Rightarrow> cell list \<Rightarrow> (gmns_link \<Rightarrow> cell) \<Rightarrow> gmns_link list \<Rightarrow> cell list \<times> cell list" where
  "split_field present direction field rs =
     fold (\<lambda>idx slots. assign_slot present direction idx (field (rs ! idx)) slots)
          [0..<length rs]
          (replicate (length rs) (Str []), replicate (length rs) (Str []))"

subsection \<open>create\_from\_gmns: names and link types (lines 371--424)\<close>

definition name_list :: "gmns_params \<Rightarrow> gmns_link dataframe \<Rightarrow> cell list" where
  "name_list p df =
     (if name_field p \<in> set (columns df) then map name_v (rows df)
      else replicate (length (rows df)) (Str []))"

text \<open>
  Lines 379--386: the list of link types and the name that \<^verbatim>\<open>gmns_link_type_field\<close>
  holds afterwards.
\<close>

definition link_types_list :: "gmns_params \<Rightarrow> gmns_link dataframe \<Rightarrow> string \<times> string list" where
  "link_types_list p df =
     (if link_type_field p \<notin> set (columns df) then
        (if ''link_type_name'' \<notin> set (columns df)
         then (''link_type_name'', replicate (length (rows df)) ''unclassified'')
         else (''link_type_name'', map link_type_name_v (rows df)))
      else (link_type_field p, map link_type_v (rows df)))"

text \<open>\<^verbatim>\<open>string.ascii_letters\<close>, and \<^verbatim>\<open>str.lower\<close> and \<^verbatim>\<open>str.upper\<close> on ASCII.\<close>

definition ascii_lowercase :: string where
  "ascii_lowercase = ''abcdefghijklmnopqrstuvwxyz''"

definition ascii_uppercase :: string where
  "ascii_uppercase = ''ABCDEFGHIJKLMNOPQRSTUVWXYZ''"

definition ascii_letters :: string where
  "ascii_letters = ascii_lowercase @ ascii_uppercase"

definition lower :: "char \<Rightarrow> char" where
  "lower c = (case map_of (zip ascii_uppercase ascii_lowercase) c of Some d \<Rightarrow> d | None \<Rightarrow> c)"

definition upper :: "char \<Rightarrow> char" where
  "upper c = (case map_of (zip ascii_lowercase ascii_uppercase) c of Some d \<Rightarrow> d | None \<Rightarrow> c)"

text \<open>\<^verbatim>\<open>list(dict.fromkeys(xs))\<close>: the first occurrence of each element, in order.\<close>

fun fromkeys :: "'a list \<Rightarrow> 'a list" where
  "fromkeys [] = []"
| "fromkeys (x # xs) = x # filter (\<lambda>y. y \<noteq> x) (fromkeys xs)"

text \<open>
  Lines 393--407: the loop over the characters of the name, from index \<open>i\<close>;
  \<open>None\<close> when it ends with \<^verbatim>\<open>saved\<close> still false.
\<close>

function try_name :: "link_type_registry \<Rightarrow> string \<Rightarrow> nat \<Rightarrow> link_type_registry option" where
  "try_name reg lt_name i =
     (if i < length lt_name then
        (if lower (lt_name ! i) \<notin> set (all_types reg)
           then Some (new_link_type reg (lower (lt_name ! i)) lt_name)
         else if upper (lt_name ! i) \<notin> set (all_types reg)
           then Some (new_link_type reg (upper (lt_name ! i)) lt_name)
         else try_name reg lt_name (i + 1))
      else None)"
  by pat_completeness auto
termination
  by (relation "measure (\<lambda>(reg, lt_name, i). length lt_name - i)") auto

declare try_name.simps [simp del]

text \<open>
  Lines 410--424: the scan of \<^verbatim>\<open>string.ascii_letters\<close> from \<open>ascii_idx\<close>; the
  index past the end raises, which line 415 turns into ValueError.
\<close>

function scan_ascii :: "link_type_registry \<Rightarrow> string \<Rightarrow> nat \<Rightarrow> error + link_type_registry" where
  "scan_ascii reg lt_name ascii_idx =
     (if ascii_idx < length ascii_letters then
        (if ascii_letters ! ascii_idx \<notin> set (all_types reg)
           then Inr (new_link_type reg (ascii_letters ! ascii_idx) lt_name)
         else scan_ascii reg lt_name (ascii_idx + 1))
      else Inl ValueError)"
  by pat_completeness auto
termination
  by (relation "measure (\<lambda>(reg, lt_name, ascii_idx). length ascii_letters - ascii_idx)") auto

declare scan_ascii.simps [simp del]

definition add_link_type :: "link_type_registry \<Rightarrow> string \<Rightarrow> error + link_type_registry" where
  "add_link_type reg lt_name =
     (case try_name reg lt_name 0 of
        Some reg' \<Rightarrow> Inr reg'
      | None \<Rightarrow> scan_ascii reg lt_name 0)"

fun add_link_types_loop :: "link_type_registry \<Rightarrow> string list \<Rightarrow> error + link_type_registry" where
  "add_link_types_loop reg [] = Inr reg"
| "add_link_types_loop reg (lt_name # lt_names) =
     (case add_link_type reg lt_name of
        Inl e \<Rightarrow> Inl e
      | Inr reg' \<Rightarrow> add_link_types_loop reg' lt_names)"

text \<open>Line 390: one round for each distinct name of the list.\<close>

definition add_link_types :: "link_type_registry \<Rightarrow> string list \<Rightarrow> error + link_type_registry" where
  "add_link_types reg lts = add_link_types_loop reg (fromkeys lts)"

text \<open>
  The allocation as the specification words it: the first unused code among the
  characters of the name, each lower-cased then upper-cased; failing that, the first
  unused ASCII letter; failing that, an error.
\<close>

definition name_candidates :: "string \<Rightarrow> char list" where
  "name_candidates lt_name = concat (map (\<lambda>c. [lower c, upper c]) lt_name)"

definition allocate_code_spec :: "link_type_registry \<Rightarrow> string \<Rightarrow> error + link_type_registry" where
  "allocate_code_spec reg lt_name =
     (case find (\<lambda>c. c \<notin> set (all_types reg)) (name_candidates lt_name) of
        Some c \<Rightarrow> Inr (reg @ [(c, lt_name)])
      | None \<Rightarrow>
          (case find (\<lambda>c. c \<notin> set (all_types reg)) ascii_letters of
             Some c \<Rightarrow> Inr (reg @ [(c, lt_name)])
           | None \<Rightarrow> Inl ValueError))"

subsection \<open>create\_from\_gmns: modes (lines 428--483)\<close>

text \<open>
  Line 438: the first entry of \<^verbatim>\<open>gmns_users\<close> with the key \<open>mode\<close>, then its
  key \<^verbatim>\<open>'auto'\<close>, which an entry of another key does not have.
\<close>

definition letters_of :: "(string \<times> string \<times> string) list \<Rightarrow> string \<Rightarrow> error + string" where
  "letters_of users mode =
     (case filter (\<lambda>(k, d, l). k = mode) users of
        [] \<Rightarrow> Inl IndexError
      | (k, d, l) # _ \<Rightarrow> if k = ''auto'' then Inr l else Inl KeyError)"

text \<open>Line 444: the description of the first entry whose letters are the letter.\<close>

definition mode_name_of :: "(string \<times> string \<times> string) list \<Rightarrow> char \<Rightarrow> error + string" where
  "mode_name_of users letter =
     (case filter (\<lambda>(k, d, l). l = [letter]) users of
        [] \<Rightarrow> Inl IndexError
      | (k, d, l) # _ \<Rightarrow> Inr d)"

fun add_modes ::
  "(string \<times> string \<times> string) list \<Rightarrow> mode_registry \<Rightarrow> string \<Rightarrow> error + mode_registry" where
  "add_modes users reg [] = Inr reg"
| "add_modes users reg (letter # letters) =
     (if letter \<notin> set (list_modes reg) then
        (case mode_name_of users letter of
           Inl e \<Rightarrow> Inl e
         | Inr mode_name \<Rightarrow>
             add_modes users (new_mode reg letter mode_name ''Mode from GMNS link table'') letters)
      else add_modes users reg letters)"

fun explicit_modes ::
  "(string \<times> string \<times> string) list \<Rightarrow> mode_registry \<Rightarrow> gmns_link list
     \<Rightarrow> error + (string list \<times> mode_registry)" where
  "explicit_modes users reg [] = Inr ([], reg)"
| "explicit_modes users reg (row # rs) =
     (if modes_v row \<in> set (map fst users) then
        (case letters_of users (modes_v row) of
           Inl e \<Rightarrow> Inl e
         | Inr letters \<Rightarrow>
             (case add_modes users reg letters of
                Inl e \<Rightarrow> Inl e
              | Inr reg' \<Rightarrow>
                  (case explicit_modes users reg' rs of
                     Inl e \<Rightarrow> Inl e
                   | Inr (ms, reg'') \<Rightarrow> Inr (letters # ms, reg''))))
      else
        (case explicit_modes users reg rs of
           Inl e \<Rightarrow> Inl e
         | Inr (ms, reg') \<Rightarrow> Inr ([] # ms, reg')))"

text \<open>
  Lines 459--469: the chain of tests on the link type of a row. It has no last
  \<^verbatim>\<open>else\<close>: the entry of \<^verbatim>\<open>modes_list\<close> stays \<^verbatim>\<open>''\<close> when no list has the type.
\<close>

definition infer_mode :: "gmns_params \<Rightarrow> string \<Rightarrow> string" where
  "infer_mode p lt =
     (if lt \<in> set (bicycle_link_types p) then ''b''
      else if lt \<in> set (car_link_types p) then ''c''
      else if lt \<in> set (transit_link_types p) then ''t''
      else if lt \<in> set (walk_link_types p) then ''w''
      else [])"

text \<open>\<^verbatim>\<open>row[gmns_link_type_field]\<close>, the field being the configured one or the fallback.\<close>

definition link_type_cell :: "gmns_params \<Rightarrow> gmns_link dataframe \<Rightarrow> gmns_link \<Rightarrow> string" where
  "link_type_cell p df row =
     (if link_type_field p \<in> set (columns df) then link_type_v row else link_type_name_v row)"

definition inferred_modes ::
  "gmns_params \<Rightarrow> gmns_link dataframe \<Rightarrow> string \<Rightarrow> error + string list" where
  "inferred_modes p df lt_field =
     (if lt_field = ''link_type_name'' \<and> lt_field \<notin> set (columns df) then Inl ValueError
      else Inr (map (\<lambda>row. infer_mode p (link_type_cell p df row)) (rows df)))"

definition modes_list ::
  "gmns_params \<Rightarrow> gmns_link dataframe \<Rightarrow> string \<Rightarrow> mode_registry
     \<Rightarrow> error + (string list \<times> mode_registry)" where
  "modes_list p df lt_field reg =
     (if modes_field p \<in> set (columns df) then explicit_modes (gmns_users p) reg (rows df)
      else
        (case inferred_modes p df lt_field of
           Inl e \<Rightarrow> Inl e
         | Inr ms \<Rightarrow> Inr (ms, reg)))"

definition gmns_bike_facilities :: "string list" where
  "gmns_bike_facilities = [''wcl'', ''bikelane'', ''cycletrack'']"

definition gmns_ped_facilities :: "string list" where
  "gmns_ped_facilities = [''shoulder'', ''sidewalk'']"

text \<open>Lines 475--483, for one of the two facility columns.\<close>

definition add_facility ::
  "bool \<Rightarrow> (gmns_link \<Rightarrow> string) \<Rightarrow> string list \<Rightarrow> char \<Rightarrow> gmns_link list \<Rightarrow> string list
     \<Rightarrow> string list" where
  "add_facility present facility facilities letter rs ms =
     (if present
      then map (\<lambda>(row, m). if facility row \<in> set facilities \<and> letter \<notin> set m then m @ [letter] else m)
               (zip rs ms)
      else ms)"

subsection \<open>create\_from\_gmns: the rows to insert, and the whole method\<close>

definition aeq_nodes_df :: "gmns_params \<Rightarrow> gmns_node dataframe \<Rightarrow> error + aeq_node list" where
  "aeq_nodes_df p nodes_df =
     (if node_id_field p \<notin> set (columns nodes_df) then Inl KeyError
      else if ''x_coord'' \<notin> set (columns nodes_df) \<or> ''y_coord'' \<notin> set (columns nodes_df)
        then Inl AttributeError
      else Inr (map (\<lambda>n. \<lparr>aeq_node_id = node_id n, aeq_is_centroid = 0, aeq_x_coord = x_coord n,
                           aeq_y_coord = y_coord n, aeq_node_notes = ''from GMNS file''\<rparr>)
                    (rows nodes_df)))"

definition aeq_links_df ::
  "gmns_link list \<Rightarrow> cell list \<Rightarrow> string list \<Rightarrow> string list \<Rightarrow> cell list
     \<Rightarrow> cell list \<times> cell list \<Rightarrow> cell list \<times> cell list \<Rightarrow> cell list \<times> cell list
     \<Rightarrow> aeq_link list" where
  "aeq_links_df rs direction ms lts names speed capacity lanes =
     map (\<lambda>i. \<lparr>aeq_link_id = link_id (rs ! i),
               aeq_a_node = from_node_id (rs ! i),
               aeq_b_node = to_node_id (rs ! i),
               aeq_direction = direction ! i,
               aeq_distance = distance_v (rs ! i),
               aeq_modes = ms ! i,
               aeq_link_type = lts ! i,
               aeq_name = names ! i,
               aeq_speed_ab = fst speed ! i,
               aeq_speed_ba = snd speed ! i,
               aeq_capacity_ab = fst capacity ! i,
               aeq_capacity_ba = snd capacity ! i,
               aeq_geometry = geometry_v (rs ! i),
               aeq_lanes_ab = fst lanes ! i,
               aeq_lanes_ba = snd lanes ! i,
               aeq_notes = ''from GMNS file''\<rparr>)
         [0..<length rs]"

text \<open>
  The table and the lists of the method after line 367: the rows that are left, the
  list \<^verbatim>\<open>two_way_indices\<close>, the list \<^verbatim>\<open>direction\<close> and the pairs of slots.
\<close>

record reconciled =
  rec_df :: "gmns_link dataframe"
  rec_two_way :: "nat list"
  rec_direction :: "cell list"
  rec_speed :: "cell list \<times> cell list"
  rec_capacity :: "cell list \<times> cell list"
  rec_lanes :: "cell list \<times> cell list"

definition reconcile :: "gmns_params \<Rightarrow> gmns_link dataframe \<Rightarrow> reconciled" where
  "reconcile p df0 =
     (let (rs, two_way_indices) = two_way_detection (rows df0);
          df = add_direction p \<lparr>columns = columns df0, rows = rs\<rparr>;
          direction = direction_330 (rows df) two_way_indices;
          present = (\<lambda>field. field \<in> set (columns df))
      in \<lparr>rec_df = df,
          rec_two_way = two_way_indices,
          rec_direction = direction,
          rec_speed = split_field (present (speed_field p)) direction speed_v (rows df),
          rec_capacity = split_field (present (capacity_field p)) direction capacity_v (rows df),
          rec_lanes = split_field (present (lanes_field p)) direction lanes_v (rows df)\<rparr>)"

text \<open>
  Lines 260--268 and 294--295: the checks on the links table and the distance column,
  in the order of the source.
\<close>

definition gmns_links_checked ::
  "gmns_params \<Rightarrow> gmns_link dataframe \<Rightarrow> error + gmns_link dataframe" where
  "gmns_links_checked p links_df =
     (case check_link_fields (required_link_fields p) (columns links_df) of
        Inl e \<Rightarrow> Inl e
      | Inr cols \<Rightarrow>
          (case check_geometry p cols of
             Inl e \<Rightarrow> Inl e
           | Inr _ \<Rightarrow> Inr (add_distance p \<lparr>columns = cols, rows = rows links_df\<rparr>)))"

text \<open>
  Lines 228--551. The columns added to the tables of the project (lines 273--290) and
  the two insert statements themselves belong to the store; the rows handed to them
  are appended to the tables of the model.
\<close>

definition create_from_gmns ::
  "gmns_params \<Rightarrow> gmns_link dataframe \<Rightarrow> gmns_node dataframe \<Rightarrow> network \<Rightarrow> error + network" where
  "create_from_gmns p links_df nodes_df net =
     (case check_node_fields p (columns nodes_df) of
        Inl e \<Rightarrow> Inl e
      | Inr _ \<Rightarrow>
     (case gmns_links_checked p links_df of
        Inl e \<Rightarrow> Inl e
      | Inr df0 \<Rightarrow>
     (let r = reconcile p df0;
          df = rec_df r;
          names = name_list p df;
          (lt_field, lts) = link_types_list p df
      in
     (case add_link_types (link_type_registry net) lts of
        Inl e \<Rightarrow> Inl e
      | Inr lt_reg \<Rightarrow>
     (case modes_list p df lt_field (mode_registry net) of
        Inl e \<Rightarrow> Inl e
      | Inr (ms, mode_reg) \<Rightarrow>
     (let ms' = add_facility (''bike_facility'' \<in> set (columns df)) bike_facility_v
                  gmns_bike_facilities (CHR ''b'') (rows df) ms;
          ms'' = add_facility (''ped_facility'' \<in> set (columns df)) ped_facility_v
                  gmns_ped_facilities (CHR ''w'') (rows df) ms'
      in
     (case aeq_nodes_df p nodes_df of
        Inl e \<Rightarrow> Inl e
      | Inr ns \<Rightarrow>
          if ''geometry'' \<notin> set (columns df) then Inl AttributeError
          else Inr (net\<lparr>link_type_registry := lt_reg,
                        mode_registry := mode_reg,
                        nodes_table := nodes_table net @ ns,
                        links_table := links_table net @
                          aeq_links_df (rows df) (rec_direction r) ms'' lts names
                            (rec_speed r) (rec_capacity r) (rec_lanes r)\<rparr>))))))))"

text \<open>The link rows that a call has inserted.\<close>

definition inserted_links :: "network \<Rightarrow> network \<Rightarrow> aeq_link list" where
  "inserted_links net net' = drop (length (links_table net)) (links_table net')"

text \<open>
  What the claim on the slots asks of one field of one row: \<open>present\<close> says whether
  the source column exists, \<open>d\<close> is the direction of the row, \<open>v\<close> the source value,
  \<open>ab\<close> and \<open>ba\<close> the two slots.
\<close>

definition slots_ok :: "bool \<Rightarrow> cell \<Rightarrow> cell \<Rightarrow> cell \<Rightarrow> cell \<Rightarrow> bool" where
  "slots_ok present d v ab ba \<longleftrightarrow>
     (if present
      then ab = (if d = Num 1 \<or> d = Num 0 then v else Str [])
         \<and> ba = (if d = Num (- 1) \<or> d = Num 0 then v else Str [])
      else ab = Str [] \<and> ba = Str [])"

text \<open>
  A row of a links file for the examples: its \<^verbatim>\<open>link_id\<close>, its two nodes, its
  direction, its speed and its link type; the other cells are missing or empty.
\<close>

definition link_row_of :: "int \<Rightarrow> int \<Rightarrow> int \<Rightarrow> cell \<Rightarrow> cell \<Rightarrow> string \<Rightarrow> gmns_link" where
  "link_row_of lid a b dir speed lt =
     \<lparr>link_id = lid, from_node_id = a, to_node_id = b, distance_v = NaN, direction_v = dir,
      speed_v = speed, capacity_v = NaN, lanes_v = NaN, name_v = NaN, link_type_v = lt,
      link_type_name_v = [], modes_v = [], geometry_v = ''LINESTRING (0 0, 1 1)'',
      bike_facility_v = [], ped_facility_v = []\<rparr>"

text \<open>
  The tables of the examples: a links file with two rows for the pair \<open>(1, 2)\<close>, one
  row with direction \<open>-1\<close>, and one row with the direction \<open>7\<close> and a link type that
  no list of the parameters has; no column of modes.
\<close>

definition example_params :: gmns_params where
  "example_params =
     \<lparr>distance_field = ''length'', direction_field = ''direction'',
      speed_field = ''free_speed'', capacity_field = ''capacity'', lanes_field = ''lanes'',
      name_field = ''name'', link_type_field = ''link_type'', modes_field = ''allowed_uses'',
      geometry_field = ''geometry'', node_id_field = ''node_id'',
      required_node_fields = [''node_id'', ''x_coord'', ''y_coord''],
      required_link_fields = [''link_id'', ''from_node_id'', ''to_node_id'', ''directed''],
      gmns_users = [(''auto'', ''car'', ''c''), (''bike'', ''bicycle'', ''b''),
                    (''walk'', ''walk'', ''w'')],
      bicycle_link_types = [''bikeway''], car_link_types = [''road''],
      transit_link_types = [''rail''], walk_link_types = [''footway'']\<rparr>"

definition example_links :: "gmns_link dataframe" where
  "example_links =
     \<lparr>columns = [''link_id'', ''from_node_id'', ''to_node_id'', ''direction'', ''free_speed'',
                 ''link_type'', ''geometry''],
      rows = [link_row_of 12 2 3 (Num (- 1)) (Num 30) ''road'',
              link_row_of 11 1 2 NaN (Num 60) ''road'',
              link_row_of 10 1 2 NaN (Num 50) ''road'',
              link_row_of 13 3 4 (Num 7) (Num 40) ''ferry'']\<rparr>"

definition example_nodes :: "gmns_node dataframe" where
  "example_nodes =
     \<lparr>columns = [''node_id'', ''x_coord'', ''y_coord''],
      rows = [\<lparr>node_id = 1, x_coord = 0, y_coord = 0\<rparr>, \<lparr>node_id = 2, x_coord = 1, y_coord = 0\<rparr>,
              \<lparr>node_id = 3, x_coord = 1, y_coord = 1\<rparr>, \<lparr>node_id = 4, x_coord = 0, y_coord = 1\<rparr>]\<rparr>"

definition empty_network :: network where
  "empty_network =
     \<lparr>link_type_registry = [], mode_registry = [], nodes_table = [], links_table = []\<rparr>"

subsection \<open>build\_graphs\<close>

text \<open>
  A row of the table \<^verbatim>\<open>links\<close> as the query reads it: the five identity fields, the
  other numeric columns by name (\<open>None\<close> for NULL) and the columns that are not
  numeric.
\<close>

record link_row =
  net_link_id :: int
  a_node :: int
  b_node :: int
  net_direction :: int
  modes :: string
  numeric :: "(string \<times> real option) list"
  non_numeric :: "(string \<times> string) list"

record links_db =
  table_info :: "string list"
  link_rows :: "link_row list"
  mode_ids :: "char list"
  node_rows :: "(int \<times> bool) list"

text \<open>
  The graph handed to the path engine, as far as this method sets it: its mode, its
  network table, the centroids given to \<^verbatim>\<open>prepare_graph\<close> and the flag set by
  \<^verbatim>\<open>set_blocked_centroid_flows\<close>.
\<close>

record graph =
  graph_mode :: char
  graph_network :: "link_row list"
  graph_centroids :: "int list"
  blocked_centroid_flows :: bool

text \<open>
  The list objects of the caller live in a store, so that a change made through the
  argument \<^verbatim>\<open>fields\<close> is seen by the caller.
\<close>

type_synonym addr = nat
type_synonym store = "addr \<Rightarrow> string list"

definition identity_fields :: "string list" where
  "identity_fields = [''link_id'', ''a_node'', ''b_node'', ''direction'', ''modes'']"

definition ignore_fields :: "string list" where
  "ignore_fields = [''ogc_fid'', ''geometry'']"

text \<open>
  Lines 578--586. \<^verbatim>\<open>list(set(fields))\<close> has the elements of the list once each, in
  an order Python does not fix: the model keeps the set.
\<close>

definition all_fields_of :: "links_db \<Rightarrow> store \<Rightarrow> addr option \<Rightarrow> store \<times> string set" where
  "all_fields_of db h fields_arg =
     (case fields_arg of
        None \<Rightarrow> (h, set (filter (\<lambda>f. f \<notin> set ignore_fields) (table_info db)))
      | Some a \<Rightarrow>
          (let h' = h(a := h a @ identity_fields)
           in (h', set (h' a))))"

text \<open>Lines 588--592. A mode is a code of one character.\<close>

datatype mode_sel = AllModes | OneMode char | TheseModes "char list"

definition modes_of :: "links_db \<Rightarrow> mode_sel \<Rightarrow> char list" where
  "modes_of db sel =
     (case sel of
        AllModes \<Rightarrow> mode_ids db
      | OneMode m \<Rightarrow> [m]
      | TheseModes ms \<Rightarrow> ms)"

text \<open>
  Lines 594--601: the query selects the fields asked for (the identity fields are among
  them on both branches of line 578), and \<^verbatim>\<open>valid_fields\<close> keeps the numeric columns
  and \<^verbatim>\<open>modes\<close>.
\<close>

definition select_fields :: "string set \<Rightarrow> link_row \<Rightarrow> link_row" where
  "select_fields all_fields r =
     r\<lparr>numeric := filter (\<lambda>(name, v). name \<in> all_fields) (numeric r),
       non_numeric := filter (\<lambda>(name, v). name \<in> all_fields) (non_numeric r)\<rparr>"

definition valid_fields_only :: "link_row \<Rightarrow> link_row" where
  "valid_fields_only r = r\<lparr>non_numeric := []\<rparr>"

definition centroids_of :: "links_db \<Rightarrow> int list" where
  "centroids_of db = sort (map fst (filter snd (node_rows db)))"

text \<open>
  Line 604: \<^verbatim>\<open>str.contains(m)\<close> for a code \<open>m\<close> of one letter is the membership of
  the letter in the string.
\<close>

definition block_mode :: "char \<Rightarrow> link_row \<Rightarrow> link_row" where
  "block_mode m r = (if m \<notin> set (modes r) then r\<lparr>b_node := a_node r\<rparr> else r)"

definition graph_for :: "char \<Rightarrow> link_row list \<Rightarrow> int list \<Rightarrow> graph" where
  "graph_for m data centroids =
     \<lparr>graph_mode = m,
      graph_network = map (block_mode m) data,
      graph_centroids = centroids,
      blocked_centroid_flows = True\<rparr>"

definition build_graphs ::
  "links_db \<Rightarrow> addr option \<Rightarrow> mode_sel \<Rightarrow> store \<times> (char \<rightharpoonup> graph) \<Rightarrow> store \<times> (char \<rightharpoonup> graph)" where
  "build_graphs db fields_arg sel st =
     (case st of (h, graphs) \<Rightarrow>
        let (h', all_fields) = all_fields_of db h fields_arg;
            ms = modes_of db sel;
            df = map (select_fields all_fields) (link_rows db);
            centroids = centroids_of db;
            data = map valid_fields_only df
        in (h', fold (\<lambda>m gs. gs(m \<mapsto> graph_for m data centroids)) ms graphs))"

text \<open>
  The store of the examples: three links, for the modes \<open>c\<close> and \<open>w\<close>, and three
  nodes, two of them centroids.
\<close>

definition example_db :: links_db where
  "example_db =
     \<lparr>table_info = [''ogc_fid'', ''link_id'', ''a_node'', ''b_node'', ''direction'',
                    ''distance'', ''modes'', ''name'', ''geometry''],
      link_rows =
        [\<lparr>net_link_id = 1, a_node = 1, b_node = 2, net_direction = 1, modes = ''c'',
          numeric = [(''distance'', Some 10)], non_numeric = [(''name'', ''Main'')]\<rparr>,
         \<lparr>net_link_id = 2, a_node = 2, b_node = 3, net_direction = 0, modes = ''cw'',
          numeric = [(''distance'', Some 20)], non_numeric = [(''name'', ''High'')]\<rparr>,
         \<lparr>net_link_id = 3, a_node = 3, b_node = 1, net_direction = - 1, modes = ''w'',
          numeric = [(''distance'', None)], non_numeric = [(''name'', ''Path'')]\<rparr>],
      mode_ids = ''cw'',
      node_rows = [(3, True), (2, False), (1, True)]\<rparr>"

section \<open>Theorems\<close>

subsection \<open>create\_from\_osm: a place name that is not found\<close>

text \<open>
  C1 (the code departs from the claim). The claim: when \<^verbatim>\<open>placegetter\<close> returns
  \<^verbatim>\<open>None\<close> for the bounding box, the method warns and returns early without raising.
  The code: line 178 unpacks the bounding box before line 179 tests it, so the call
  raises TypeError and no warning is issued. The theorem evaluates the method on a new
  model (no links) for the place name \<^verbatim>\<open>Nowhere\<close>, which \<^verbatim>\<open>placegetter\<close> does not
  find.
\<close>

theorem create_from_osm_place_not_found_raises:
  "create_from_osm
     \<lparr>count_links = 0, haversine = (\<lambda>_ _ _ _. 0), max_query_area_size = 1,
      placegetter = (\<lambda>_. (None, []))\<rparr>
     None None None None (Some ''Nowhere'') (ModesList [''car''])
     \<lparr>warnings = [], downloader = None\<rparr>
   = Inl TypeError"
  by (simp add: create_from_osm_def normalise_modes_def)

text \<open>The same on every call that reaches line 177 with a place name that is not found.\<close>

lemma create_from_osm_place_not_found_general:
  assumes "count_links env = 0" "normalise_modes marg = Inr ms"
    and "fst (placegetter env name) = None"
  shows "create_from_osm env west south east north (Some name) marg st = Inl TypeError"
proof (cases "placegetter env name")
  case (Pair bbox report)
  with assms(3) have "bbox = None" by simp
  with Pair assms(1,2) show ?thesis by (simp add: create_from_osm_def)
qed

subsection \<open>create\_from\_osm: the tiles\<close>























subsection \<open>create\_from\_gmns: two-way links, direction and slots\<close>


lemma pairs_drop_duplicates_last: "pair_of ` set (drop_duplicates_last xs) = pair_of ` set xs"
  by (induction xs) auto


lemma drop_duplicates_last_filter:
  "drop_duplicates_last (filter (\<lambda>r. Q (pair_of r)) xs) =
   filter (\<lambda>r. Q (pair_of r)) (drop_duplicates_last xs)"
  by (induction xs) auto

lemma distinct_drop_duplicates_last: "distinct (map pair_of (drop_duplicates_last xs))"
proof (induction xs)
  case Nil
  then show ?case by simp
next
  case (Cons r rs)
  then show ?case using pairs_drop_duplicates_last[of rs] by auto
qed







lemma force_two_way_length: "length (force_two_way idxs ds) = length ds"
  unfolding force_two_way_def by (induction idxs arbitrary: ds) simp_all

lemma force_two_way_nth:
  assumes "i < length ds"
  shows "force_two_way idxs ds ! i = (if i \<in> set idxs then Num 0 else ds ! i)"
  using assms unfolding force_two_way_def
proof (induction idxs arbitrary: ds)
  case Nil
  then show ?case by simp
next
  case (Cons k ks)
  have "fold (\<lambda>idx d. d[idx := Num 0]) ks (ds[k := Num 0]) ! i
        = (if i \<in> set ks then Num 0 else ds[k := Num 0] ! i)"
    using Cons.prems by (intro Cons.IH) simp
  then show ?case using Cons.prems by (auto simp: nth_list_update)
qed


lemma two_way_detection_cases:
  assumes "two_way_detection rs = (rs', idxs)"
  shows "(set (two_way_nodes rs) = {} \<and> rs' = rs \<and> idxs = []) \<or>
         (set (two_way_nodes rs) \<noteq> {} \<and> rs' = drop_duplicates_last (sort_key link_id rs) \<and>
          idxs = filter (\<lambda>i. link_id (rs' ! i) \<in> link_id ` set
                     (filter (\<lambda>r. pair_of r \<in> set (two_way_nodes rs)) rs')) [0..<length rs'])"
proof (cases "two_way_nodes rs = []")
  case True
  then show ?thesis using assms by (simp add: two_way_detection_def)
next
  case False
  have "drop_duplicates_last (sort_key link_id (filter (\<lambda>r. pair_of r \<in> set (two_way_nodes rs)) rs))
        = filter (\<lambda>r. pair_of r \<in> set (two_way_nodes rs)) (drop_duplicates_last (sort_key link_id rs))"
    using drop_duplicates_last_filter[of "\<lambda>q. q \<in> set (two_way_nodes rs)" "sort_key link_id rs"]
    by (simp only: filter_sort[symmetric])
  then show ?thesis using False assms by (auto simp: two_way_detection_def Let_def)
qed

lemma two_way_indices_in_range:
  assumes "two_way_detection rs = (rs', idxs)"
  shows "\<forall>i \<in> set idxs. i < length rs'"
  using two_way_detection_cases[OF assms] by auto




lemma normalise_direction_nth:
  assumes "i < length ds"
  shows "normalise_direction ds ! i = (if in_1_0_m1 (ds ! i) then ds ! i else Num 1)"
  using assms by (simp add: normalise_direction_def)

lemma normalise_direction_in: 
  assumes "i < length ds"
  shows "in_1_0_m1 (normalise_direction ds ! i)"
  using assms by (simp add: normalise_direction_def in_1_0_m1_def)

lemma rows_add_direction_nth:
  assumes "i < length rs"
  shows "direction_v (rows (add_direction p \<lparr>columns = cols, rows = rs\<rparr>) ! i)
         = (if direction_field p \<in> set cols then direction_v (rs ! i) else Num 1)"
  using assms by (simp add: add_direction_def)

lemma length_rows_add_direction:
  "length (rows (add_direction p \<lparr>columns = cols, rows = rs\<rparr>)) = length rs"
  by (simp add: add_direction_def)

lemma direction_324_nth:
  assumes "i < length rs"
  shows "direction_324 (rows (add_direction p \<lparr>columns = cols, rows = rs\<rparr>)) idxs ! i
         = (if i \<in> set idxs then Num 0
            else if direction_field p \<in> set cols then direction_v (rs ! i) else Num 1)"
  using assms rows_add_direction_nth[OF assms, of p cols]
  by (simp add: direction_324_def force_two_way_nth length_rows_add_direction)

lemma length_direction_324: "length (direction_324 rs idxs) = length rs"
  by (simp add: direction_324_def force_two_way_length)

lemma length_direction_330: "length (direction_330 rs idxs) = length rs"
  by (simp add: direction_330_def normalise_direction_def length_direction_324)

lemma direction_330_nth:
  assumes "i < length rs"
  shows "direction_330 rs idxs ! i
         = (if in_1_0_m1 (direction_324 rs idxs ! i) then direction_324 rs idxs ! i else Num 1)"
  using assms by (simp add: direction_330_def normalise_direction_nth length_direction_324)

lemma reconcile_parts:
  "rec_df (reconcile p df0) =
     add_direction p \<lparr>columns = columns df0, rows = fst (two_way_detection (rows df0))\<rparr>"
  "rec_two_way (reconcile p df0) = snd (two_way_detection (rows df0))"
  "rec_direction (reconcile p df0) =
     direction_330 (rows (rec_df (reconcile p df0))) (snd (two_way_detection (rows df0)))"
  "rec_speed (reconcile p df0) =
     split_field (speed_field p \<in> set (columns (rec_df (reconcile p df0))))
       (rec_direction (reconcile p df0)) speed_v (rows (rec_df (reconcile p df0)))"
  "rec_capacity (reconcile p df0) =
     split_field (capacity_field p \<in> set (columns (rec_df (reconcile p df0))))
       (rec_direction (reconcile p df0)) capacity_v (rows (rec_df (reconcile p df0)))"
  "rec_lanes (reconcile p df0) =
     split_field (lanes_field p \<in> set (columns (rec_df (reconcile p df0))))
       (rec_direction (reconcile p df0)) lanes_v (rows (rec_df (reconcile p df0)))"
  by (simp_all add: reconcile_def Let_def split: prod.splits)

text \<open>The two lists of slots after the rounds for the rows before \<open>k\<close>.\<close>

lemma split_field_upto:
  assumes "k \<le> length rs"
  shows "fold (\<lambda>idx slots. assign_slot present direction idx (field (rs ! idx)) slots) [0..<k]
           (replicate (length rs) (Str []), replicate (length rs) (Str []))
         = (map (\<lambda>i. if i < k \<and> present \<and> direction ! i \<noteq> Num (- 1) then field (rs ! i) else Str [])
                [0..<length rs],
            map (\<lambda>i. if i < k \<and> present \<and> direction ! i \<noteq> Num 1 then field (rs ! i) else Str [])
                [0..<length rs])"
  using assms
proof (induction k)
  case 0
  show ?case by (simp add: map_replicate_trivial)
next
  case (Suc k)
  have k: "k < length rs" using Suc.prems by simp
  have u: "(map g [0..<length rs])[k := g' k] = map (\<lambda>i. if i = k then g' k else g i) [0..<length rs]"
    for g g' :: "nat \<Rightarrow> cell"
    by (rule nth_equalityI) (simp_all add: nth_list_update)
  have "fold (\<lambda>idx slots. assign_slot present direction idx (field (rs ! idx)) slots) [0..<Suc k]
           (replicate (length rs) (Str []), replicate (length rs) (Str []))
        = assign_slot present direction k (field (rs ! k))
            (map (\<lambda>i. if i < k \<and> present \<and> direction ! i \<noteq> Num (- 1) then field (rs ! i) else Str [])
                [0..<length rs],
             map (\<lambda>i. if i < k \<and> present \<and> direction ! i \<noteq> Num 1 then field (rs ! i) else Str [])
                [0..<length rs])"
    using Suc.IH k by simp
  also have "\<dots> = (map (\<lambda>i. if i < Suc k \<and> present \<and> direction ! i \<noteq> Num (- 1) then field (rs ! i) else Str [])
                [0..<length rs],
            map (\<lambda>i. if i < Suc k \<and> present \<and> direction ! i \<noteq> Num 1 then field (rs ! i) else Str [])
                [0..<length rs])"
    unfolding assign_slot_def
    by (auto simp: u[where g'="\<lambda>k. field (rs ! k)"] less_Suc_eq intro!: map_cong)
  finally show ?case .
qed

lemma split_field_nth:
  assumes "i < length rs"
  shows "fst (split_field present direction field rs) ! i
           = (if present \<and> direction ! i \<noteq> Num (- 1) then field (rs ! i) else Str [])"
    and "snd (split_field present direction field rs) ! i
           = (if present \<and> direction ! i \<noteq> Num 1 then field (rs ! i) else Str [])"
  using assms by (simp_all add: split_field_def split_field_upto)

lemma split_field_length:
  "length (fst (split_field present direction field rs)) = length rs"
  "length (snd (split_field present direction field rs)) = length rs"
  by (simp_all add: split_field_def split_field_upto)

lemma create_from_gmns_inserted:
  assumes "create_from_gmns p links_df nodes_df net = Inr net'"
  shows "\<exists>df1 ms lts names. gmns_links_checked p links_df = Inr df1 \<and>
           inserted_links net net' =
             aeq_links_df (rows (rec_df (reconcile p df1))) (rec_direction (reconcile p df1))
               ms lts names (rec_speed (reconcile p df1)) (rec_capacity (reconcile p df1))
               (rec_lanes (reconcile p df1))"
proof (cases "gmns_links_checked p links_df")
  case (Inl e)
  then show ?thesis using assms by (simp add: create_from_gmns_def split: sum.splits)
next
  case (Inr df1)
  obtain lt_field lts where lt: "link_types_list p (rec_df (reconcile p df1)) = (lt_field, lts)"
    by (cases "link_types_list p (rec_df (reconcile p df1))")
  show ?thesis using assms Inr lt
    apply (auto simp: create_from_gmns_def Let_def inserted_links_def
             split: sum.splits prod.splits if_splits)
    apply blast
    done
qed

lemma aeq_links_df_length:
  "length (aeq_links_df rs direction ms lts names speed capacity lanes) = length rs"
  by (simp add: aeq_links_df_def)

lemma aeq_links_df_nth:
  assumes "k < length rs"
  shows "aeq_direction (aeq_links_df rs direction ms lts names speed capacity lanes ! k) = direction ! k"
    and "aeq_speed_ab (aeq_links_df rs direction ms lts names speed capacity lanes ! k) = fst speed ! k"
    and "aeq_speed_ba (aeq_links_df rs direction ms lts names speed capacity lanes ! k) = snd speed ! k"
    and "aeq_capacity_ab (aeq_links_df rs direction ms lts names speed capacity lanes ! k) = fst capacity ! k"
    and "aeq_capacity_ba (aeq_links_df rs direction ms lts names speed capacity lanes ! k) = snd capacity ! k"
    and "aeq_lanes_ab (aeq_links_df rs direction ms lts names speed capacity lanes ! k) = fst lanes ! k"
    and "aeq_lanes_ba (aeq_links_df rs direction ms lts names speed capacity lanes ! k) = snd lanes ! k"
    and "aeq_link_id (aeq_links_df rs direction ms lts names speed capacity lanes ! k) = link_id (rs ! k)"
    and "aeq_modes (aeq_links_df rs direction ms lts names speed capacity lanes ! k) = ms ! k"
  using assms by (simp_all add: aeq_links_df_def)

lemma length_rec_direction:
  "length (rec_direction (reconcile p df0)) = length (rows (rec_df (reconcile p df0)))"
  by (simp add: reconcile_parts(3) length_direction_330)

lemma rec_direction_in:
  assumes "i < length (rows (rec_df (reconcile p df0)))"
  shows "in_1_0_m1 (rec_direction (reconcile p df0) ! i)"
proof -
  have "rec_direction (reconcile p df0) =
        normalise_direction (direction_324 (rows (rec_df (reconcile p df0)))
                               (snd (two_way_detection (rows df0))))"
    by (simp add: reconcile_parts(3) direction_330_def)
  then show ?thesis using assms by (simp add: normalise_direction_in length_direction_324)
qed

lemma slots_ok_split_field:
  assumes "i < length rs" "in_1_0_m1 (direction ! i)"
  shows "slots_ok present (direction ! i) (field (rs ! i))
           (fst (split_field present direction field rs) ! i)
           (snd (split_field present direction field rs) ! i)"
  using assms(2) unfolding slots_ok_def split_field_nth[OF assms(1)] in_1_0_m1_def
  by auto




text \<open>
  C5. After line 330 the list \<^verbatim>\<open>direction\<close> has one entry for each row that is left,
  each of them 1, 0 or -1: an entry of line 324 that is one of the three is kept, any
  other is replaced by 1; the entries of the two-way rows, which line 324 set to 0,
  are still 0; without a direction column every entry is 0 (two-way) or 1. The rows
  that a successful import inserts carry such a direction.
\<close>

theorem direction_normalised:
  fixes p :: gmns_params and df0 :: "gmns_link dataframe"
  defines "r \<equiv> reconcile p df0"
  defines "d324 \<equiv> direction_324 (rows (rec_df r)) (rec_two_way r)"
  shows "length (rec_direction r) = length (rows (rec_df r))
       \<and> (\<forall>i<length (rows (rec_df r)).
             in_1_0_m1 (rec_direction r ! i)
           \<and> rec_direction r ! i = (if in_1_0_m1 (d324 ! i) then d324 ! i else Num 1))
       \<and> (\<forall>i \<in> set (rec_two_way r).
             i < length (rows (rec_df r)) \<and> d324 ! i = Num 0 \<and> rec_direction r ! i = Num 0)
       \<and> (direction_field p \<notin> set (columns df0) \<longrightarrow>
            (\<forall>i<length (rows (rec_df r)).
               rec_direction r ! i = (if i \<in> set (rec_two_way r) then Num 0 else Num 1)))
       \<and> (create_from_gmns p links_df nodes_df net = Inr net' \<longrightarrow>
            (\<forall>l \<in> set (inserted_links net net'). in_1_0_m1 (aeq_direction l)))"
proof -
  let ?rs' = "fst (two_way_detection (rows df0))"
  have df: "rec_df r = add_direction p \<lparr>columns = columns df0, rows = ?rs'\<rparr>"
    and tw: "rec_two_way r = snd (two_way_detection (rows df0))"
    and rd: "rec_direction r = direction_330 (rows (rec_df r)) (rec_two_way r)"
    unfolding r_def by (simp_all add: reconcile_parts)
  have len: "length (rows (rec_df r)) = length ?rs'"
    unfolding df by (rule length_rows_add_direction)
  have 1: "length (rec_direction r) = length (rows (rec_df r))"
    unfolding r_def by (rule length_rec_direction)
  have 2: "\<forall>i<length (rows (rec_df r)).
             in_1_0_m1 (rec_direction r ! i)
           \<and> rec_direction r ! i = (if in_1_0_m1 (d324 ! i) then d324 ! i else Num 1)"
  proof (intro allI impI conjI)
    fix i assume i: "i < length (rows (rec_df r))"
    show "in_1_0_m1 (rec_direction r ! i)" using i unfolding r_def by (rule rec_direction_in)
    show "rec_direction r ! i = (if in_1_0_m1 (d324 ! i) then d324 ! i else Num 1)"
      unfolding d324_def using i by (subst rd) (rule direction_330_nth)
  qed
  have rng: "\<forall>i \<in> set (rec_two_way r). i < length ?rs'"
    unfolding tw by (rule two_way_indices_in_range) simp
  have 3: "\<forall>i \<in> set (rec_two_way r).
             i < length (rows (rec_df r)) \<and> d324 ! i = Num 0 \<and> rec_direction r ! i = Num 0"
  proof
    fix i assume m: "i \<in> set (rec_two_way r)"
    then have i: "i < length ?rs'" using rng by blast
    have a: "d324 ! i = Num 0"
      unfolding d324_def df using i m by (simp add: direction_324_nth)
    have "rec_direction r ! i = (if in_1_0_m1 (d324 ! i) then d324 ! i else Num 1)"
      using 2 i len by simp
    then have "rec_direction r ! i = Num 0" using a by (simp add: in_1_0_m1_def)
    then show "i < length (rows (rec_df r)) \<and> d324 ! i = Num 0 \<and> rec_direction r ! i = Num 0"
      using a i len by simp
  qed
  have 4: "direction_field p \<notin> set (columns df0) \<longrightarrow>
            (\<forall>i<length (rows (rec_df r)).
               rec_direction r ! i = (if i \<in> set (rec_two_way r) then Num 0 else Num 1))"
  proof (intro impI allI)
    fix i assume c: "direction_field p \<notin> set (columns df0)" and i: "i < length (rows (rec_df r))"
    have "d324 ! i = (if i \<in> set (rec_two_way r) then Num 0 else Num 1)"
      unfolding d324_def df using i c len by (simp add: direction_324_nth)
    moreover have "rec_direction r ! i = (if in_1_0_m1 (d324 ! i) then d324 ! i else Num 1)"
      using 2 i by simp
    ultimately show "rec_direction r ! i = (if i \<in> set (rec_two_way r) then Num 0 else Num 1)"
      by (simp add: in_1_0_m1_def)
  qed
  have 5: "create_from_gmns p links_df nodes_df net = Inr net' \<longrightarrow>
            (\<forall>l \<in> set (inserted_links net net'). in_1_0_m1 (aeq_direction l))"
  proof (intro impI ballI)
    fix l assume c: "create_from_gmns p links_df nodes_df net = Inr net'"
      and l: "l \<in> set (inserted_links net net')"
    obtain df1 ms lts names where e: "inserted_links net net' =
             aeq_links_df (rows (rec_df (reconcile p df1))) (rec_direction (reconcile p df1))
               ms lts names (rec_speed (reconcile p df1)) (rec_capacity (reconcile p df1))
               (rec_lanes (reconcile p df1))"
      using create_from_gmns_inserted[OF c] by blast
    obtain k where k: "k < length (rows (rec_df (reconcile p df1)))" "l = inserted_links net net' ! k"
      using l unfolding e by (auto simp: in_set_conv_nth aeq_links_df_length)
    have "aeq_direction l = rec_direction (reconcile p df1) ! k"
      unfolding k(2) e using k(1) by (rule aeq_links_df_nth)
    then show "in_1_0_m1 (aeq_direction l)" using rec_direction_in[OF k(1)] by simp
  qed
  from 1 2 3 4 5 show ?thesis by blast
qed

theorem direction_normalised_witness:
  "rec_two_way (reconcile example_params example_links) = [0]
   \<and> direction_324 (rows (rec_df (reconcile example_params example_links)))
        (rec_two_way (reconcile example_params example_links)) = [Num 0, Num (- 1), Num 7]
   \<and> length (rec_direction (reconcile example_params example_links)) = 3
   \<and> in_1_0_m1 (rec_direction (reconcile example_params example_links) ! 2)
   \<and> rec_direction (reconcile example_params example_links) ! 2 = Num 1
   \<and> rec_direction (reconcile example_params example_links) ! 1 = Num (- 1)
   \<and> rec_direction (reconcile example_params example_links) ! 0 = Num 0
   \<and> direction_field example_params \<notin> set [''link_id'', ''from_node_id'', ''to_node_id'']
   \<and> rec_direction (reconcile example_params
         \<lparr>columns = [''link_id'', ''from_node_id'', ''to_node_id''], rows = rows example_links\<rparr>) ! 1
       = Num 1
   \<and> create_from_gmns example_params example_links example_nodes empty_network
       = Inr (projr (create_from_gmns example_params example_links example_nodes empty_network))
   \<and> length (inserted_links empty_network
         (projr (create_from_gmns example_params example_links example_nodes empty_network))) = 3
   \<and> list_all (\<lambda>l. in_1_0_m1 (aeq_direction l))
        (inserted_links empty_network
           (projr (create_from_gmns example_params example_links example_nodes empty_network)))"
proof -
  let ?r = "reconcile example_params example_links"
  let ?d324 = "direction_324 (rows (rec_df ?r)) (rec_two_way ?r)"
  let ?df' = "\<lparr>columns = [''link_id'', ''from_node_id'', ''to_node_id''], rows = rows example_links\<rparr>"
  let ?c = "create_from_gmns example_params example_links example_nodes empty_network"
  have "\<not> isl ?c" by code_simp
  then have c: "?c = Inr (projr ?c)" by simp
  note t = direction_normalised[of example_params example_links example_links example_nodes
      empty_network "projr ?c"]
  note t' = direction_normalised[of example_params ?df' example_links example_nodes
      empty_network "projr ?c"]
  have tw: "rec_two_way ?r = [0]" by code_simp
  have d324: "?d324 = [Num 0, Num (- 1), Num 7]" by code_simp
  have len: "length (rows (rec_df ?r)) = 3" by code_simp
  have 1: "length (rec_direction ?r) = 3" using t[THEN conjunct1] len by simp
  have a: "\<forall>i<3. in_1_0_m1 (rec_direction ?r ! i)
           \<and> rec_direction ?r ! i = (if in_1_0_m1 (?d324 ! i) then ?d324 ! i else Num 1)"
    using t[THEN conjunct2, THEN conjunct1] unfolding len .
  have 2: "in_1_0_m1 (rec_direction ?r ! 2) \<and> rec_direction ?r ! 2 = Num 1"
    using a[rule_format, of 2] unfolding d324 by (simp add: in_1_0_m1_def)
  have 3: "rec_direction ?r ! 1 = Num (- 1)"
    using a[rule_format, of 1] unfolding d324 by (simp add: in_1_0_m1_def)
  have b: "\<forall>i \<in> set (rec_two_way ?r). i < length (rows (rec_df ?r)) \<and> ?d324 ! i = Num 0
            \<and> rec_direction ?r ! i = Num 0"
    using t[THEN conjunct2, THEN conjunct2, THEN conjunct1] .
  have 4: "rec_direction ?r ! 0 = Num 0" using b unfolding tw by simp
  have nd: "direction_field example_params \<notin> set [''link_id'', ''from_node_id'', ''to_node_id'']"
    by code_simp
  have len': "length (rows (rec_df (reconcile example_params ?df'))) = 3" by code_simp
  have tw': "rec_two_way (reconcile example_params ?df') = [0]" by code_simp
  have "\<forall>i<3. rec_direction (reconcile example_params ?df') ! i
               = (if i \<in> set (rec_two_way (reconcile example_params ?df')) then Num 0 else Num 1)"
    using t'[THEN conjunct2, THEN conjunct2, THEN conjunct2, THEN conjunct1] nd
    unfolding len' by simp
  then have 5: "rec_direction (reconcile example_params ?df') ! 1 = Num 1"
    unfolding tw' by simp
  have 6: "\<forall>l \<in> set (inserted_links empty_network (projr ?c)). in_1_0_m1 (aeq_direction l)"
    using t[THEN conjunct2, THEN conjunct2, THEN conjunct2, THEN conjunct2] c by blast
  have 7: "length (inserted_links empty_network (projr ?c)) = 3" by code_simp
  from tw d324 1 2 3 4 nd 5 c 6 7 show ?thesis unfolding list_all_iff by blast
qed

text \<open>
  C6. For each row that is left and each of speed, capacity and lanes: when the source
  column exists, the \<open>_ab\<close> slot holds the source value if the direction is 1 or 0
  and is empty otherwise, and the \<open>_ba\<close> slot holds it if the direction is -1 or 0
  and is empty otherwise; when the column is absent both slots are empty. The loop has
  no error to raise. The rows that a successful import inserts carry these slots.
\<close>

theorem slots_follow_direction:
  fixes p :: gmns_params and df0 :: "gmns_link dataframe"
  defines "r \<equiv> reconcile p df0"
  defines "rs \<equiv> rows (rec_df r)"
  defines "present \<equiv> (\<lambda>field. field \<in> set (columns (rec_df r)))"
  assumes "i < length rs"
  shows "slots_ok (present (speed_field p)) (rec_direction r ! i) (speed_v (rs ! i))
           (fst (rec_speed r) ! i) (snd (rec_speed r) ! i)
       \<and> slots_ok (present (capacity_field p)) (rec_direction r ! i) (capacity_v (rs ! i))
           (fst (rec_capacity r) ! i) (snd (rec_capacity r) ! i)
       \<and> slots_ok (present (lanes_field p)) (rec_direction r ! i) (lanes_v (rs ! i))
           (fst (rec_lanes r) ! i) (snd (rec_lanes r) ! i)
       \<and> (create_from_gmns p links_df nodes_df net = Inr net' \<longrightarrow>
            (\<exists>df1. gmns_links_checked p links_df = Inr df1
               \<and> length (inserted_links net net') = length (rows (rec_df (reconcile p df1)))
               \<and> (\<forall>k<length (inserted_links net net').
                     slots_ok (speed_field p \<in> set (columns (rec_df (reconcile p df1))))
                       (aeq_direction (inserted_links net net' ! k))
                       (speed_v (rows (rec_df (reconcile p df1)) ! k))
                       (aeq_speed_ab (inserted_links net net' ! k))
                       (aeq_speed_ba (inserted_links net net' ! k))
                   \<and> slots_ok (capacity_field p \<in> set (columns (rec_df (reconcile p df1))))
                       (aeq_direction (inserted_links net net' ! k))
                       (capacity_v (rows (rec_df (reconcile p df1)) ! k))
                       (aeq_capacity_ab (inserted_links net net' ! k))
                       (aeq_capacity_ba (inserted_links net net' ! k))
                   \<and> slots_ok (lanes_field p \<in> set (columns (rec_df (reconcile p df1))))
                       (aeq_direction (inserted_links net net' ! k))
                       (lanes_v (rows (rec_df (reconcile p df1)) ! k))
                       (aeq_lanes_ab (inserted_links net net' ! k))
                       (aeq_lanes_ba (inserted_links net net' ! k)))))"
proof -
  have stage: "slots_ok (speed_field p \<in> set (columns (rec_df (reconcile p df))))
                 (rec_direction (reconcile p df) ! k) (speed_v (rows (rec_df (reconcile p df)) ! k))
                 (fst (rec_speed (reconcile p df)) ! k) (snd (rec_speed (reconcile p df)) ! k)
             \<and> slots_ok (capacity_field p \<in> set (columns (rec_df (reconcile p df))))
                 (rec_direction (reconcile p df) ! k) (capacity_v (rows (rec_df (reconcile p df)) ! k))
                 (fst (rec_capacity (reconcile p df)) ! k) (snd (rec_capacity (reconcile p df)) ! k)
             \<and> slots_ok (lanes_field p \<in> set (columns (rec_df (reconcile p df))))
                 (rec_direction (reconcile p df) ! k) (lanes_v (rows (rec_df (reconcile p df)) ! k))
                 (fst (rec_lanes (reconcile p df)) ! k) (snd (rec_lanes (reconcile p df)) ! k)"
    if k: "k < length (rows (rec_df (reconcile p df)))" for df k
  proof -
    have d: "in_1_0_m1 (rec_direction (reconcile p df) ! k)" using k by (rule rec_direction_in)
    show ?thesis
      by (subst reconcile_parts(4), subst reconcile_parts(4), subst reconcile_parts(5),
          subst reconcile_parts(5), subst reconcile_parts(6), subst reconcile_parts(6))
         (intro conjI slots_ok_split_field k d)
  qed
  have e2e: "create_from_gmns p links_df nodes_df net = Inr net' \<longrightarrow>
            (\<exists>df1. gmns_links_checked p links_df = Inr df1
               \<and> length (inserted_links net net') = length (rows (rec_df (reconcile p df1)))
               \<and> (\<forall>k<length (inserted_links net net').
                     slots_ok (speed_field p \<in> set (columns (rec_df (reconcile p df1))))
                       (aeq_direction (inserted_links net net' ! k))
                       (speed_v (rows (rec_df (reconcile p df1)) ! k))
                       (aeq_speed_ab (inserted_links net net' ! k))
                       (aeq_speed_ba (inserted_links net net' ! k))
                   \<and> slots_ok (capacity_field p \<in> set (columns (rec_df (reconcile p df1))))
                       (aeq_direction (inserted_links net net' ! k))
                       (capacity_v (rows (rec_df (reconcile p df1)) ! k))
                       (aeq_capacity_ab (inserted_links net net' ! k))
                       (aeq_capacity_ba (inserted_links net net' ! k))
                   \<and> slots_ok (lanes_field p \<in> set (columns (rec_df (reconcile p df1))))
                       (aeq_direction (inserted_links net net' ! k))
                       (lanes_v (rows (rec_df (reconcile p df1)) ! k))
                       (aeq_lanes_ab (inserted_links net net' ! k))
                       (aeq_lanes_ba (inserted_links net net' ! k))))"
  proof
    assume c: "create_from_gmns p links_df nodes_df net = Inr net'"
    obtain df1 ms lts names where ch: "gmns_links_checked p links_df = Inr df1"
      and e: "inserted_links net net' =
             aeq_links_df (rows (rec_df (reconcile p df1))) (rec_direction (reconcile p df1))
               ms lts names (rec_speed (reconcile p df1)) (rec_capacity (reconcile p df1))
               (rec_lanes (reconcile p df1))"
      using create_from_gmns_inserted[OF c] by blast
    have len: "length (inserted_links net net') = length (rows (rec_df (reconcile p df1)))"
      unfolding e by (rule aeq_links_df_length)
    have "\<forall>k<length (inserted_links net net').
                     slots_ok (speed_field p \<in> set (columns (rec_df (reconcile p df1))))
                       (aeq_direction (inserted_links net net' ! k))
                       (speed_v (rows (rec_df (reconcile p df1)) ! k))
                       (aeq_speed_ab (inserted_links net net' ! k))
                       (aeq_speed_ba (inserted_links net net' ! k))
                   \<and> slots_ok (capacity_field p \<in> set (columns (rec_df (reconcile p df1))))
                       (aeq_direction (inserted_links net net' ! k))
                       (capacity_v (rows (rec_df (reconcile p df1)) ! k))
                       (aeq_capacity_ab (inserted_links net net' ! k))
                       (aeq_capacity_ba (inserted_links net net' ! k))
                   \<and> slots_ok (lanes_field p \<in> set (columns (rec_df (reconcile p df1))))
                       (aeq_direction (inserted_links net net' ! k))
                       (lanes_v (rows (rec_df (reconcile p df1)) ! k))
                       (aeq_lanes_ab (inserted_links net net' ! k))
                       (aeq_lanes_ba (inserted_links net net' ! k))"
    proof (intro allI impI)
      fix k assume "k < length (inserted_links net net')"
      then have k: "k < length (rows (rec_df (reconcile p df1)))" using len by simp
      show "slots_ok (speed_field p \<in> set (columns (rec_df (reconcile p df1))))
                       (aeq_direction (inserted_links net net' ! k))
                       (speed_v (rows (rec_df (reconcile p df1)) ! k))
                       (aeq_speed_ab (inserted_links net net' ! k))
                       (aeq_speed_ba (inserted_links net net' ! k))
                   \<and> slots_ok (capacity_field p \<in> set (columns (rec_df (reconcile p df1))))
                       (aeq_direction (inserted_links net net' ! k))
                       (capacity_v (rows (rec_df (reconcile p df1)) ! k))
                       (aeq_capacity_ab (inserted_links net net' ! k))
                       (aeq_capacity_ba (inserted_links net net' ! k))
                   \<and> slots_ok (lanes_field p \<in> set (columns (rec_df (reconcile p df1))))
                       (aeq_direction (inserted_links net net' ! k))
                       (lanes_v (rows (rec_df (reconcile p df1)) ! k))
                       (aeq_lanes_ab (inserted_links net net' ! k))
                       (aeq_lanes_ba (inserted_links net net' ! k))"
        unfolding e aeq_links_df_nth[OF k] by (rule stage[OF k])
    qed
    with ch len show "\<exists>df1. gmns_links_checked p links_df = Inr df1
               \<and> length (inserted_links net net') = length (rows (rec_df (reconcile p df1)))
               \<and> (\<forall>k<length (inserted_links net net').
                     slots_ok (speed_field p \<in> set (columns (rec_df (reconcile p df1))))
                       (aeq_direction (inserted_links net net' ! k))
                       (speed_v (rows (rec_df (reconcile p df1)) ! k))
                       (aeq_speed_ab (inserted_links net net' ! k))
                       (aeq_speed_ba (inserted_links net net' ! k))
                   \<and> slots_ok (capacity_field p \<in> set (columns (rec_df (reconcile p df1))))
                       (aeq_direction (inserted_links net net' ! k))
                       (capacity_v (rows (rec_df (reconcile p df1)) ! k))
                       (aeq_capacity_ab (inserted_links net net' ! k))
                       (aeq_capacity_ba (inserted_links net net' ! k))
                   \<and> slots_ok (lanes_field p \<in> set (columns (rec_df (reconcile p df1))))
                       (aeq_direction (inserted_links net net' ! k))
                       (lanes_v (rows (rec_df (reconcile p df1)) ! k))
                       (aeq_lanes_ab (inserted_links net net' ! k))
                       (aeq_lanes_ba (inserted_links net net' ! k)))"
      by blast
  qed
  have "i < length (rows (rec_df (reconcile p df0)))" using assms(4) unfolding rs_def r_def .
  from stage[OF this] e2e show ?thesis unfolding r_def rs_def present_def by blast
qed

theorem slots_follow_direction_witness:
  "length (rows (rec_df (reconcile example_params example_links))) = 3
   \<and> rec_direction (reconcile example_params example_links) = [Num 0, Num (- 1), Num 1]
   \<and> speed_field example_params \<in> set (columns (rec_df (reconcile example_params example_links)))
   \<and> capacity_field example_params \<notin> set (columns (rec_df (reconcile example_params example_links)))
   \<and> fst (rec_speed (reconcile example_params example_links)) ! 1 = Str []
   \<and> snd (rec_speed (reconcile example_params example_links)) ! 1 = Num 30
   \<and> fst (rec_capacity (reconcile example_params example_links)) ! 1 = Str []
   \<and> snd (rec_capacity (reconcile example_params example_links)) ! 1 = Str []
   \<and> fst (rec_speed (reconcile example_params example_links)) ! 0 = Num 60
   \<and> snd (rec_speed (reconcile example_params example_links)) ! 0 = Num 60
   \<and> create_from_gmns example_params example_links example_nodes empty_network
       = Inr (projr (create_from_gmns example_params example_links example_nodes empty_network))
   \<and> aeq_speed_ab (inserted_links empty_network
         (projr (create_from_gmns example_params example_links example_nodes empty_network)) ! 2)
       = Num 40
   \<and> aeq_speed_ba (inserted_links empty_network
         (projr (create_from_gmns example_params example_links example_nodes empty_network)) ! 2)
       = Str []"
proof -
  let ?r = "reconcile example_params example_links"
  let ?c = "create_from_gmns example_params example_links example_nodes empty_network"
  let ?new = "inserted_links empty_network (projr ?c)"
  have "\<not> isl ?c" by code_simp
  then have c: "?c = Inr (projr ?c)" by simp
  have len: "length (rows (rec_df ?r)) = 3" by code_simp
  have d: "rec_direction ?r = [Num 0, Num (- 1), Num 1]" by code_simp
  have sp: "speed_field example_params \<in> set (columns (rec_df ?r))" by code_simp
  have cp: "capacity_field example_params \<notin> set (columns (rec_df ?r))" by code_simp
  have v1: "speed_v (rows (rec_df ?r) ! 1) = Num 30" by code_simp
  have v0: "speed_v (rows (rec_df ?r) ! 0) = Num 60" by code_simp
  have i1: "1 < length (rows (rec_df ?r))" and i0: "0 < length (rows (rec_df ?r))"
    using len by simp_all
  note t1 = slots_follow_direction[OF i1, of example_links example_nodes empty_network "projr ?c"]
  note t0 = slots_follow_direction[OF i0, of example_links example_nodes empty_network "projr ?c"]
  have a: "fst (rec_speed ?r) ! 1 = Str [] \<and> snd (rec_speed ?r) ! 1 = Num 30"
    using t1[THEN conjunct1] sp unfolding d v1 by (simp add: slots_ok_def)
  have b: "fst (rec_capacity ?r) ! 1 = Str [] \<and> snd (rec_capacity ?r) ! 1 = Str []"
    using t1[THEN conjunct2, THEN conjunct1] cp by (simp add: slots_ok_def)
  have e: "fst (rec_speed ?r) ! 0 = Num 60 \<and> snd (rec_speed ?r) ! 0 = Num 60"
    using t0[THEN conjunct1] sp unfolding d v0 by (simp add: slots_ok_def)
  obtain df1 where df1: "gmns_links_checked example_params example_links = Inr df1"
      "length ?new = length (rows (rec_df (reconcile example_params df1)))"
      "\<forall>k<length ?new.
          slots_ok (speed_field example_params \<in> set (columns (rec_df (reconcile example_params df1))))
            (aeq_direction (?new ! k)) (speed_v (rows (rec_df (reconcile example_params df1)) ! k))
            (aeq_speed_ab (?new ! k)) (aeq_speed_ba (?new ! k))"
    using t1[THEN conjunct2, THEN conjunct2, THEN conjunct2] c by blast
  have df1v: "df1 = projr (gmns_links_checked example_params example_links)"
    using df1(1) by simp
  have n3: "length ?new = 3" by code_simp
  have sp1: "speed_field example_params \<in> set (columns (rec_df (reconcile example_params df1)))"
    unfolding df1v by code_simp
  have v2: "speed_v (rows (rec_df (reconcile example_params df1)) ! 2) = Num 40"
    unfolding df1v by code_simp
  have d2: "aeq_direction (?new ! 2) = Num 1" by code_simp
  have f: "aeq_speed_ab (?new ! 2) = Num 40 \<and> aeq_speed_ba (?new ! 2) = Str []"
    using df1(3)[rule_format, of 2] n3 sp1 unfolding v2 d2 by (simp add: slots_ok_def)
  from len d sp cp a b e c f show ?thesis by simp
qed

subsection \<open>create\_from\_gmns: modes without a modes column\<close>

lemma infer_mode_empty_iff:
  "infer_mode p lt = [] \<longleftrightarrow>
     lt \<notin> set (bicycle_link_types p) \<and> lt \<notin> set (car_link_types p)
     \<and> lt \<notin> set (transit_link_types p) \<and> lt \<notin> set (walk_link_types p)"
  by (simp add: infer_mode_def)

lemma inferred_modes_of_list:
  "inferred_modes p df (fst (link_types_list p df)) =
     (if link_type_field p \<notin> set (columns df) \<and> ''link_type_name'' \<notin> set (columns df)
      then Inl ValueError
      else Inr (map (infer_mode p) (snd (link_types_list p df))))"
  by (auto simp: inferred_modes_def link_types_list_def link_type_cell_def)

text \<open>
  The claim C7 as it is written fails on the example: the links table has no column of
  modes, the link type \<^verbatim>\<open>ferry\<close> of its last row is in none of the four lists, and
  the import succeeds with the empty mode string for that row.
\<close>

theorem unmapped_link_type_counterexample:
  "modes_field example_params \<notin> set (columns example_links)
   \<and> link_type_v (rows example_links ! 3) = ''ferry''
   \<and> ''ferry'' \<notin> set (bicycle_link_types example_params)
   \<and> ''ferry'' \<notin> set (car_link_types example_params)
   \<and> ''ferry'' \<notin> set (transit_link_types example_params)
   \<and> ''ferry'' \<notin> set (walk_link_types example_params)
   \<and> \<not> isl (create_from_gmns example_params example_links example_nodes empty_network)
   \<and> map aeq_link_type (links_table (projr
        (create_from_gmns example_params example_links example_nodes empty_network)))
      = [''road'', ''road'', ''ferry'']
   \<and> map aeq_modes (links_table (projr
        (create_from_gmns example_params example_links example_nodes empty_network)))
      = [''c'', ''c'', []]"
  by code_simp

text \<open>
  C7, amended. When the links table has no column of modes, the modes of lines
  449--469 are inferred from the list of link types row by row, and a link type that
  none of the four lists has gives the empty mode string, with no error; the only error
  of this branch is raised when the table has neither the configured link-type column
  nor a column \<^verbatim>\<open>link_type_name\<close>.
\<close>

theorem unmapped_link_type_empty_modes:
  assumes "modes_field p \<notin> set (columns df)"
  shows "modes_list p df (fst (link_types_list p df)) reg =
           (if link_type_field p \<notin> set (columns df) \<and> ''link_type_name'' \<notin> set (columns df)
            then Inl ValueError
            else Inr (map (infer_mode p) (snd (link_types_list p df)), reg))
       \<and> (infer_mode p lt = [] \<longleftrightarrow>
            lt \<notin> set (bicycle_link_types p) \<and> lt \<notin> set (car_link_types p)
            \<and> lt \<notin> set (transit_link_types p) \<and> lt \<notin> set (walk_link_types p))"
  using assms by (simp add: modes_list_def inferred_modes_of_list infer_mode_empty_iff)

theorem unmapped_link_type_empty_modes_witness:
  "modes_field example_params \<notin> set (columns (rec_df (reconcile example_params example_links)))
   \<and> snd (link_types_list example_params (rec_df (reconcile example_params example_links)))
       = [''road'', ''road'', ''ferry'']
   \<and> modes_list example_params (rec_df (reconcile example_params example_links))
        (fst (link_types_list example_params (rec_df (reconcile example_params example_links)))) []
       = Inr ([''c'', ''c'', []], [])
   \<and> infer_mode example_params ''ferry'' = []"
proof -
  let ?df = "rec_df (reconcile example_params example_links)"
  have m: "modes_field example_params \<notin> set (columns ?df)" by code_simp
  have l: "snd (link_types_list example_params ?df) = [''road'', ''road'', ''ferry'']"
    by code_simp
  have c: "link_type_field example_params \<in> set (columns ?df)" by code_simp
  have i: "map (infer_mode example_params) [''road'', ''road'', ''ferry''] = [''c'', ''c'', []]"
    by code_simp
  have f: "''ferry'' \<notin> set (bicycle_link_types example_params)
         \<and> ''ferry'' \<notin> set (car_link_types example_params)
         \<and> ''ferry'' \<notin> set (transit_link_types example_params)
         \<and> ''ferry'' \<notin> set (walk_link_types example_params)" by code_simp
  note t = unmapped_link_type_empty_modes[OF m, of "[]" "''ferry''"]
  have 1: "modes_list example_params ?df (fst (link_types_list example_params ?df)) []
       = Inr ([''c'', ''c'', []], [])"
    using t[THEN conjunct1] c unfolding l i by simp
  have 2: "infer_mode example_params ''ferry'' = []"
    using t[THEN conjunct2] f by blast
  from m l 1 2 show ?thesis by blast
qed

subsection \<open>create\_from\_gmns: codes of the link types\<close>

lemma set_fromkeys: "set (fromkeys xs) = set xs"
  by (induction xs) auto

lemma distinct_fromkeys: "distinct (fromkeys xs)"
  by (induction xs) (auto simp: set_fromkeys)

lemma try_name_find:
  "try_name reg lt_name i =
     (case find (\<lambda>c. c \<notin> set (all_types reg)) (name_candidates (drop i lt_name)) of
        Some c \<Rightarrow> Some (reg @ [(c, lt_name)])
      | None \<Rightarrow> None)"
proof (induction reg lt_name i rule: try_name.induct)
  case (1 reg lt_name i)
  show ?case
  proof (cases "i < length lt_name")
    case True
    then have d: "drop i lt_name = lt_name ! i # drop (i + 1) lt_name"
      by (simp add: Cons_nth_drop_Suc)
    show ?thesis
      using True 1 unfolding d
      by (subst try_name.simps) (simp add: name_candidates_def new_link_type_def)
  next
    case False
    then show ?thesis by (subst try_name.simps) (simp add: name_candidates_def)
  qed
qed

lemma scan_ascii_find:
  "scan_ascii reg lt_name k =
     (case find (\<lambda>c. c \<notin> set (all_types reg)) (drop k ascii_letters) of
        Some c \<Rightarrow> Inr (reg @ [(c, lt_name)])
      | None \<Rightarrow> Inl ValueError)"
proof (induction reg lt_name k rule: scan_ascii.induct)
  case (1 reg lt_name k)
  show ?case
  proof (cases "k < length ascii_letters")
    case True
    then have d: "drop k ascii_letters = ascii_letters ! k # drop (k + 1) ascii_letters"
      by (simp add: Cons_nth_drop_Suc)
    show ?thesis
      using True 1 unfolding d
      by (subst scan_ascii.simps) (simp add: new_link_type_def)
  next
    case False
    then show ?thesis by (subst scan_ascii.simps) simp
  qed
qed

lemma add_link_type_spec: "add_link_type reg lt_name = allocate_code_spec reg lt_name"
  by (simp add: add_link_type_def allocate_code_spec_def try_name_find scan_ascii_find
           split: option.splits)

lemma add_link_type_fresh:
  assumes "add_link_type reg lt_name = Inr reg'"
  shows "\<exists>c. reg' = reg @ [(c, lt_name)] \<and> c \<notin> set (all_types reg)"
  using assms unfolding add_link_type_spec allocate_code_spec_def
  by (auto split: option.splits dest: find_Some_iff[THEN iffD1])

lemma add_link_types_loop_codes:
  assumes "add_link_types_loop reg names = Inr reg'"
  shows "\<exists>codes. length codes = length names \<and> reg' = reg @ zip codes names
           \<and> distinct codes \<and> set codes \<inter> set (all_types reg) = {}"
  using assms
proof (induction names arbitrary: reg)
  case Nil
  then show ?case by simp
next
  case (Cons n names)
  from Cons.prems obtain r where r: "add_link_type reg n = Inr r"
      "add_link_types_loop r names = Inr reg'"
    by (auto split: sum.splits)
  obtain c where c: "r = reg @ [(c, n)]" "c \<notin> set (all_types reg)"
    using add_link_type_fresh[OF r(1)] by blast
  obtain codes where codes: "length codes = length names" "reg' = r @ zip codes names"
      "distinct codes" "set codes \<inter> set (all_types r) = {}"
    using Cons.IH[OF r(2)] by blast
  have at: "set (all_types r) = insert c (set (all_types reg))"
    unfolding c(1) by (simp add: all_types_def)
  have "length (c # codes) = length (n # names)" using codes(1) by simp
  moreover have "reg' = reg @ zip (c # codes) (n # names)" using codes(2) c(1) by simp
  moreover have "distinct (c # codes)" using codes(3,4) at by auto
  moreover have "set (c # codes) \<inter> set (all_types reg) = {}" using codes(4) at c(2) by auto
  ultimately show ?case by blast
qed

lemma arterial: "add_link_type [] ''Arterial'' = Inr [(CHR ''a'', ''Arterial'')]"
  by code_simp

text \<open>
  C8. The allocation of lines 391--424 for one name is the allocation that the
  specification words: the first unused code among the characters of the name, each
  lower-cased then upper-cased; failing that, the first unused ASCII letter; failing
  that, ValueError. The loop of line 390 runs once for each distinct name, in the order
  of first occurrence, and a run that succeeds has appended exactly one entry for each
  of them, with codes that are distinct and were unused. The name \<^verbatim>\<open>Arterial\<close> on an
  empty registry gets the code \<^verbatim>\<open>a\<close>.
\<close>

theorem link_type_code_allocation:
  "add_link_type reg lt_name = allocate_code_spec reg lt_name
   \<and> distinct (fromkeys lts) \<and> set (fromkeys lts) = set lts
   \<and> (add_link_types reg lts = Inr reg' \<longrightarrow>
         (\<exists>codes. length codes = length (fromkeys lts)
            \<and> reg' = reg @ zip codes (fromkeys lts)
            \<and> distinct codes \<and> set codes \<inter> set (all_types reg) = {}))
   \<and> add_link_type [] ''Arterial'' = Inr [(CHR ''a'', ''Arterial'')]"
proof -
  have 1: "add_link_type reg lt_name = allocate_code_spec reg lt_name"
    by (rule add_link_type_spec)
  have 2: "add_link_types reg lts = Inr reg' \<longrightarrow>
         (\<exists>codes. length codes = length (fromkeys lts)
            \<and> reg' = reg @ zip codes (fromkeys lts)
            \<and> distinct codes \<and> set codes \<inter> set (all_types reg) = {})"
    unfolding add_link_types_def by (intro impI add_link_types_loop_codes)
  have 3: "add_link_type [] ''Arterial'' = Inr [(CHR ''a'', ''Arterial'')]"
    by code_simp
  from 1 2 3 show ?thesis by (simp add: distinct_fromkeys set_fromkeys)
qed

theorem link_type_code_allocation_witness:
  "add_link_types [(CHR ''z'', ''centroid_connector''), (CHR ''y'', ''default'')]
       [''Arterial'', ''local'', ''Arterial'', ''alley'', ''lay'', ''y'']
     = Inr [(CHR ''z'', ''centroid_connector''), (CHR ''y'', ''default''),
            (CHR ''a'', ''Arterial''), (CHR ''l'', ''local''), (CHR ''A'', ''alley''),
            (CHR ''L'', ''lay''), (CHR ''Y'', ''y'')]
   \<and> (\<exists>codes. length codes = 5
         \<and> [(CHR ''z'', ''centroid_connector''), (CHR ''y'', ''default''),
            (CHR ''a'', ''Arterial''), (CHR ''l'', ''local''), (CHR ''A'', ''alley''),
            (CHR ''L'', ''lay''), (CHR ''Y'', ''y'')]
           = [(CHR ''z'', ''centroid_connector''), (CHR ''y'', ''default'')]
             @ zip codes [''Arterial'', ''local'', ''alley'', ''lay'', ''y''])
   \<and> add_link_type [(CHR ''a'', ''x''), (CHR ''A'', ''x'')] ''a''
       = Inr [(CHR ''a'', ''x''), (CHR ''A'', ''x''), (CHR ''b'', ''a'')]
   \<and> add_link_type (zip ascii_letters (replicate 52 ''x'')) ''ab'' = Inl ValueError"
proof -
  let ?reg = "[(CHR ''z'', ''centroid_connector''), (CHR ''y'', ''default'')]"
  let ?lts = "[''Arterial'', ''local'', ''Arterial'', ''alley'', ''lay'', ''y'']"
  let ?reg' = "[(CHR ''z'', ''centroid_connector''), (CHR ''y'', ''default''),
            (CHR ''a'', ''Arterial''), (CHR ''l'', ''local''), (CHR ''A'', ''alley''),
            (CHR ''L'', ''lay''), (CHR ''Y'', ''y'')]"
  let ?full = "zip ascii_letters (replicate 52 ''x'')"
  have r: "add_link_types ?reg ?lts = Inr ?reg'" by code_simp
  have k: "fromkeys ?lts = [''Arterial'', ''local'', ''alley'', ''lay'', ''y'']" by code_simp
  note t = link_type_code_allocation[of ?reg "''a''" ?lts ?reg']
  have "\<exists>codes. length codes = length (fromkeys ?lts) \<and> ?reg' = ?reg @ zip codes (fromkeys ?lts)
          \<and> distinct codes \<and> set codes \<inter> set (all_types ?reg) = {}"
    using t[THEN conjunct2, THEN conjunct2, THEN conjunct2, THEN conjunct1] r by blast
  then obtain codes where codes: "length codes = length (fromkeys ?lts)"
      "?reg' = ?reg @ zip codes (fromkeys ?lts)"
    by blast
  have "length codes = 5" using codes(1) unfolding k by simp
  moreover have "?reg' = ?reg @ zip codes [''Arterial'', ''local'', ''alley'', ''lay'', ''y'']"
    using codes(2) unfolding k .
  ultimately have 1: "\<exists>codes. length codes = 5
         \<and> ?reg' = ?reg @ zip codes [''Arterial'', ''local'', ''alley'', ''lay'', ''y'']"
    by blast
  have s2: "allocate_code_spec [(CHR ''a'', ''x''), (CHR ''A'', ''x'')] ''a''
       = Inr [(CHR ''a'', ''x''), (CHR ''A'', ''x''), (CHR ''b'', ''a'')]" by code_simp
  have 2: "add_link_type [(CHR ''a'', ''x''), (CHR ''A'', ''x'')] ''a''
       = Inr [(CHR ''a'', ''x''), (CHR ''A'', ''x''), (CHR ''b'', ''a'')]"
    using link_type_code_allocation[of "[(CHR ''a'', ''x''), (CHR ''A'', ''x'')]" "''a''" "[]" "[]",
        THEN conjunct1] s2 by simp
  have s3: "allocate_code_spec ?full ''ab'' = Inl ValueError" by code_simp
  have 3: "add_link_type ?full ''ab'' = Inl ValueError"
    using link_type_code_allocation[of ?full "''ab''" "[]" "[]", THEN conjunct1] s3 by simp
  from r 1 2 3 show ?thesis by blast
qed

subsection \<open>build\_graphs\<close>



lemma build_graphs_store:
  "fst (build_graphs db fields_arg sel (h, graphs)) = fst (all_fields_of db h fields_arg)"
  by (simp add: build_graphs_def Let_def split: prod.splits)




text \<open>
  C10. Called with a list of fields, the method appends the five identity field names
  to that very list: after the call the list of the caller is the old one followed by
  the five names, five elements longer, and the other lists of the store are
  untouched; the fields queried are the set of the supplied fields and the five
  identity fields. Called without a list, the method changes no list.
\<close>

theorem build_graphs_extends_fields_in_place:
  "fst (build_graphs db (Some a) sel (h, graphs)) a
      = h a @ [''link_id'', ''a_node'', ''b_node'', ''direction'', ''modes'']
   \<and> length (fst (build_graphs db (Some a) sel (h, graphs)) a) = length (h a) + 5
   \<and> (\<forall>b. b \<noteq> a \<longrightarrow> fst (build_graphs db (Some a) sel (h, graphs)) b = h b)
   \<and> snd (all_fields_of db h (Some a))
      = set (h a) \<union> {''link_id'', ''a_node'', ''b_node'', ''direction'', ''modes''}
   \<and> fst (build_graphs db None sel (h, graphs)) = h"
  by (simp add: build_graphs_store all_fields_of_def identity_fields_def Let_def)

theorem build_graphs_extends_fields_in_place_witness:
  "fst (build_graphs example_db (Some 0) AllModes
          ((\<lambda>_. [])(0 := [''distance''], 1 := [''speed_ab'']), Map.empty)) 0
     = [''distance'', ''link_id'', ''a_node'', ''b_node'', ''direction'', ''modes'']
   \<and> length (fst (build_graphs example_db (Some 0) AllModes
          ((\<lambda>_. [])(0 := [''distance''], 1 := [''speed_ab'']), Map.empty)) 0) = 6
   \<and> (1 :: addr) \<noteq> 0
   \<and> fst (build_graphs example_db (Some 0) AllModes
          ((\<lambda>_. [])(0 := [''distance''], 1 := [''speed_ab'']), Map.empty)) 1
     = [''speed_ab'']"
proof -
  let ?h = "(\<lambda>_::addr. [] :: string list)(0 := [''distance''], 1 := [''speed_ab''])"
  note t = build_graphs_extends_fields_in_place[of example_db 0 AllModes ?h Map.empty]
  have 1: "fst (build_graphs example_db (Some 0) AllModes (?h, Map.empty)) 0
     = [''distance'', ''link_id'', ''a_node'', ''b_node'', ''direction'', ''modes'']"
    using t[THEN conjunct1] by simp
  have 2: "length (fst (build_graphs example_db (Some 0) AllModes (?h, Map.empty)) 0) = 6"
    using t[THEN conjunct2, THEN conjunct1] by simp
  have 3: "fst (build_graphs example_db (Some 0) AllModes (?h, Map.empty)) 1 = [''speed_ab'']"
    using t[THEN conjunct2, THEN conjunct2, THEN conjunct1] by simp
  from 1 2 3 show ?thesis by simp
qed

end
